theory Spec2Isabelle
  imports Main "HOL-Library.Word"
begin

section \<open>The background task worker pool (server/services/v1/workers/worker.go)\<close>

text \<open>
  A shallow embedding of \<^verbatim>\<open>worker.go\<close>. The worker and the pool talk to
  collaborators that are not part of the file (the transaction manager, the queue
  subspace, the tenant metadata, the indexer, the JSON codec): each of their operations
  is a field of the record \<open>env\<close>, a function of the history of calls made so far and
  of the call's arguments, so that a collaborator may answer the same call differently
  at different moments. Every call the worker makes is appended to that history, which
  is therefore also the trace the theorems speak about.

  Conventions.
  \<^item> \<^verbatim>\<open>time.Duration\<close> is a signed 64-bit count of nanoseconds: a \<open>64 word\<close>,
    multiplied with wrap-around and compared as a signed value.
  \<^item> A worker's \<^verbatim>\<open>errCount\<close> is reset to zero or incremented, and the loop is
    left when it reaches ten: it is a natural number. The \<^verbatim>\<open>uint\<close> counters of
    the pool are 64-bit words.
  \<^item> A Go \<^verbatim>\<open>error\<close> is its message; the nil error is \<open>None\<close>.
  \<^item> A call either returns, panics (a nil pointer is dereferenced) or blocks (a send on
    a full channel that nobody drains). A send on a channel that the supervisor
    drains (\<^verbatim>\<open>itemEvent\<close>, \<^verbatim>\<open>hearbeatChan\<close>) is an action of the trace.
  \<^item> Logging calls have no effect and are left out, except where evaluating their
    arguments dereferences a pointer.
\<close>

subsection \<open>Constants and data\<close>

type_synonym duration = "64 word"
type_synonym bytes = string
type_synonym tx = nat

datatype error = Error string

datatype 'a outcome = Returned 'a | Panicked | Blocked

definition MAX_ERROR_COUNT :: nat where
  "MAX_ERROR_COUNT = 10"

definition Minute :: duration where
  "Minute = 60 * 1000000000"

definition Millisecond :: duration where
  "Millisecond = 1000000"

definition LEASE_TIME :: duration where
  "LEASE_TIME = 1 * Minute"

definition PEAK_JOB_ITEMS :: nat where
  "PEAK_JOB_ITEMS = 5"

text \<open>
  \<^verbatim>\<open>metadata.QueueItem\<close> and the two task-type constants are declared outside the
  file. The fields the worker reads and writes are kept; \<open>ErrorCount\<close> is the
  non-negative integer of the data model. A task type is one of the two constants the
  dispatcher compares with, or any other value.
\<close>

datatype task_type = BUILD_INDEX_QUEUE_TASK | TEST_QUEUE_TASK | OtherTask string

record QueueItem =
  Id :: string
  TaskType :: task_type
  Data :: bytes
  ErrorCount :: nat

record WorkerTestTask =
  Sleep :: duration
  NumErrors :: int
  ShouldStopWorker :: bool

text \<open>
  The fields of \<^verbatim>\<open>Worker\<close> that hold data. \<open>done_chan\<close> is the number of tokens
  buffered in the channel \<^verbatim>\<open>make(chan struct{}, 1)\<close>; the handles \<^verbatim>\<open>queue\<close>,
  \<^verbatim>\<open>txMgr\<close>, \<^verbatim>\<open>tenantMgr\<close>, \<^verbatim>\<open>itemEvent\<close> and \<^verbatim>\<open>hearbeatChan\<close>
  are the environment and the trace.
\<close>

record Worker =
  id :: nat
  errCount :: nat
  done_chan :: nat
  sleepTime :: duration

record Event =
  Success :: bool
  Item :: QueueItem
  WorkerId :: nat

definition newEvent :: "bool \<Rightarrow> QueueItem \<Rightarrow> nat \<Rightarrow> Event" where
  "newEvent success item workerId = \<lparr>Success = success, Item = item, WorkerId = workerId\<rparr>"

definition newWorker :: "nat \<Rightarrow> duration \<Rightarrow> Worker" where
  "newWorker i st = \<lparr>id = i, errCount = 0, done_chan = 0, sleepTime = st\<rparr>"

subsection \<open>Metadata of the index-build task\<close>

datatype index_state = INDEX_ACTIVE | OtherIndexState nat

record Index =
  IndexName :: string
  State :: index_state

record Collection =
  Name :: string
  SecondaryIndexes_All :: "Index list"

record IndexBuildTask =
  NamespaceId :: nat
  ProjName :: string
  Branch :: string
  CollName :: string

type_synonym tenant = nat
type_synonym project = nat
type_synonym database = nat

subsection \<open>The trace of calls and the environment\<close>

datatype action =
    StartTx
  | Commit tx
  | Rollback tx
  | Peek tx nat
  | ObtainLease tx QueueItem duration
  | RenewLease tx QueueItem duration
  | Complete tx QueueItem
  | Requeue tx QueueItem duration
  | Dequeue tx QueueItem
  | SendEvent Event
  | SendHeartbeat nat
  | SendDone
  | RecvDone
  | TimeSleep duration
  | GetTenant nat
  | GetProject "tenant option" string
  | GetDatabase project "string \<times> string"
  | GetCollection database string
  | BuildCollection "Collection option"
  | UpdateCollectionIndexes "tenant option" tx database string "Index list"

type_synonym history = "action list"

record env =
  startTx :: "history \<Rightarrow> error + tx"
  commit :: "history \<Rightarrow> tx \<Rightarrow> error option"
  rollback :: "history \<Rightarrow> tx \<Rightarrow> error option"
  peek :: "history \<Rightarrow> tx \<Rightarrow> nat \<Rightarrow> error + QueueItem list"
  obtainLease :: "history \<Rightarrow> tx \<Rightarrow> QueueItem \<Rightarrow> duration \<Rightarrow> QueueItem option \<times> error option"
  complete :: "history \<Rightarrow> tx \<Rightarrow> QueueItem \<Rightarrow> error option"
  requeue :: "history \<Rightarrow> tx \<Rightarrow> QueueItem \<Rightarrow> duration \<Rightarrow> error option"
  dequeue :: "history \<Rightarrow> tx \<Rightarrow> QueueItem \<Rightarrow> error option"
  unmarshalTest :: "bytes \<Rightarrow> error + WorkerTestTask"
  marshalTest :: "WorkerTestTask \<Rightarrow> bytes"
  unmarshalBuild :: "bytes \<Rightarrow> error + IndexBuildTask"
  getTenant :: "history \<Rightarrow> nat \<Rightarrow> tenant option \<times> error option"
  getProject :: "history \<Rightarrow> tenant option \<Rightarrow> string \<Rightarrow> (error + project) outcome"
  getDatabase :: "history \<Rightarrow> project \<Rightarrow> string \<times> string \<Rightarrow> error + database"
  getCollection :: "history \<Rightarrow> database \<Rightarrow> string \<Rightarrow> Collection option"
  buildCollection :: "history \<Rightarrow> Collection option \<Rightarrow> (tx list \<times> error option) outcome"
  updateCollectionIndexes ::
    "history \<Rightarrow> tenant option \<Rightarrow> tx \<Rightarrow> database \<Rightarrow> string \<Rightarrow> Index list \<Rightarrow> error option"
  ulog_E :: "error option \<Rightarrow> bool"

text \<open>What a worker's goroutine can change: the worker itself and the history.\<close>

record state =
  self :: Worker
  trace :: history

definition call :: "action \<Rightarrow> state \<Rightarrow> state" where
  "call a s = s\<lparr>trace := trace s @ [a]\<rparr>"

subsection \<open>Worker.Stop\<close>

text \<open>
  \<^verbatim>\<open>func (w *Worker) Stop() { w.done <- struct{}{} }\<close>: a send on a channel of
  capacity one. With the slot free the token is buffered; with the slot taken the send
  waits for a receive on \<open>done\<close>.
\<close>

definition Worker_Stop :: "state \<Rightarrow> unit outcome \<times> state" where
  "Worker_Stop s =
     (let s1 = call SendDone s in
      if done_chan (self s1) < 1
      then (Returned (), s1\<lparr>self := (self s1)\<lparr>done_chan := done_chan (self s1) + 1\<rparr>\<rparr>)
      else (Blocked, s1))"

subsection \<open>handleFailedProcessing\<close>

definition handleFailedProcessing ::
  "env \<Rightarrow> QueueItem \<Rightarrow> state \<Rightarrow> error option outcome \<times> QueueItem \<times> state" where
  "handleFailedProcessing e selectedItem s =
     (let item = selectedItem\<lparr>ErrorCount := ErrorCount selectedItem + 1\<rparr>;
          w = self s
      in case startTx e (trace s) of
           Inl err \<Rightarrow> (Returned (Some err), item, call StartTx s)
         | Inr t \<Rightarrow>
             let s1 = call StartTx s in
             if ErrorCount item \<ge> MAX_ERROR_COUNT then
               let s2 = call (SendEvent (newEvent False item (id w))) s1;
                   r = dequeue e (trace s2) t item;
                   s3 = call (Dequeue t item) s2
               in (case r of
                     Some err \<Rightarrow> (Returned (Some err), item, s3)
                   | None \<Rightarrow> (Returned (commit e (trace s3) t), item, call (Commit t) s3))
             else
               let d = sleepTime w * of_nat (ErrorCount item);
                   r = requeue e (trace s1) t item d;
                   s2 = call (Requeue t item d) s1
               in (case r of
                     Some err \<Rightarrow> (Returned (Some err), item, s2)
                   | None \<Rightarrow> (Returned (commit e (trace s2) t), item, call (Commit t) s2)))"

subsection \<open>Formatting of \<^verbatim>\<open>%d\<close>\<close>

function show_nat :: "nat \<Rightarrow> string" where
  "show_nat n =
     (if n < 10 then [''0123456789'' ! n]
      else show_nat (n div 10) @ [''0123456789'' ! (n mod 10)])"
  by pat_completeness auto
termination
  by (relation "measure (\<lambda>n. n)") auto

declare show_nat.simps [simp del]

definition show_int :: "int \<Rightarrow> string" where
  "show_int i = (if i < 0 then ''-'' @ show_nat (nat (- i)) else show_nat (nat i))"

subsection \<open>testQueueTask\<close>

text \<open>
  \<^verbatim>\<open>item.Data, _ = jsoniter.Marshal(testTask)\<close> drops the encoder's error; the
  encoder of a struct of two integers and a boolean is the total function
  \<open>marshalTest\<close>. The item is passed by pointer: the function returns the item as it
  leaves it.
\<close>

definition testQueueTask ::
  "env \<Rightarrow> QueueItem \<Rightarrow> state \<Rightarrow> error option outcome \<times> QueueItem \<times> state" where
  "testQueueTask e item s =
     (case unmarshalTest e (Data item) of
        Inl err \<Rightarrow> (Returned (Some err), item, s)
      | Inr testTask \<Rightarrow>
          if ShouldStopWorker testTask then
            let testTask1 = testTask\<lparr>ShouldStopWorker := False\<rparr>;
                item1 = item\<lparr>Data := marshalTest e testTask1\<rparr>
            in (case Worker_Stop s of
                  (Returned u, s1) \<Rightarrow>
                    (Returned (Some (Error (''forced worker stop '' @ show_nat (id (self s1))))),
                     item1, s1)
                | (Panicked, s1) \<Rightarrow> (Panicked, item1, s1)
                | (Blocked, s1) \<Rightarrow> (Blocked, item1, s1))
          else if NumErrors testTask > 0 then
            let testTask1 = testTask\<lparr>NumErrors := NumErrors testTask - 1\<rparr>;
                item1 = item\<lparr>Data := marshalTest e testTask1\<rparr>
            in (Returned (Some (Error (''test error generated '' @ show_int (NumErrors testTask1)))),
                item1, s)
          else
            let s1 = call (TimeSleep (Sleep testTask)) s in
            (case startTx e (trace s1) of
               Inl err \<Rightarrow> (Returned (Some err), item, call StartTx s1)
             | Inr t \<Rightarrow>
                 let s2 = call StartTx s1;
                     r = complete e (trace s2) t item;
                     s3 = call (Complete t item) s2
                 in (case r of
                       Some err \<Rightarrow> (Returned (Some err), item, s3)
                     | None \<Rightarrow> (Returned (commit e (trace s3) t), item, call (Commit t) s3))))"

subsection \<open>buildIndexTask\<close>

text \<open>
  \<^verbatim>\<open>tenant, _ := w.tenantMgr.GetTenant(ctx, task.NamespaceId)\<close> keeps the pointer and
  drops the error, so the pointer may be nil when \<^verbatim>\<open>tenant.GetProject\<close> is called:
  \<open>getProject\<close> receives a \<open>tenant option\<close> and may panic. \<^verbatim>\<open>GetCollection\<close>
  returns a pointer and no error; \<^verbatim>\<open>coll.SecondaryIndexes.All\<close> on a nil pointer
  panics. \<^verbatim>\<open>BuildCollection\<close> answers with the transactions it called
  \<^verbatim>\<open>progressUpdate\<close> with, each of which is a \<^verbatim>\<open>RenewLease\<close> of the item,
  and its error.
\<close>

definition NewDatabaseNameWithBranch :: "string \<Rightarrow> string \<Rightarrow> string \<times> string" where
  "NewDatabaseNameWithBranch proj branch = (proj, branch)"

definition buildIndexTask ::
  "env \<Rightarrow> QueueItem \<Rightarrow> state \<Rightarrow> error option outcome \<times> QueueItem \<times> state" where
  "buildIndexTask e queueItem s =
     (case unmarshalBuild e (Data queueItem) of
        Inl err \<Rightarrow> (Returned (Some err), queueItem, s)
      | Inr task \<Rightarrow>
          let dbBranch = NewDatabaseNameWithBranch (ProjName task) (Branch task);
              tenant = fst (getTenant e (trace s) (NamespaceId task));
              s1 = call (GetTenant (NamespaceId task)) s;
              pr = getProject e (trace s1) tenant (ProjName task);
              s2 = call (GetProject tenant (ProjName task)) s1
          in
          (case pr of
             Panicked \<Rightarrow> (Panicked, queueItem, s2)
           | Blocked \<Rightarrow> (Blocked, queueItem, s2)
           | Returned (Inl err) \<Rightarrow> (Returned (Some err), queueItem, s2)
           | Returned (Inr project) \<Rightarrow>
               let dr = getDatabase e (trace s2) project dbBranch;
                   s3 = call (GetDatabase project dbBranch) s2
               in
               (case dr of
                  Inl err \<Rightarrow> (Returned (Some err), queueItem, s3)
                | Inr db \<Rightarrow>
                    let coll = getCollection e (trace s3) db (CollName task);
                        s4 = call (GetCollection db (CollName task)) s3;
                        br = buildCollection e (trace s4) coll;
                        s5 = call (BuildCollection coll) s4
                    in
                    (case br of
                       Panicked \<Rightarrow> (Panicked, queueItem, s5)
                     | Blocked \<Rightarrow> (Blocked, queueItem, s5)
                     | Returned (renewals, Some err) \<Rightarrow>
                         (Returned (Some err), queueItem,
                          fold (\<lambda>t. call (RenewLease t queueItem LEASE_TIME)) renewals s5)
                     | Returned (renewals, None) \<Rightarrow>
                         let s6 = fold (\<lambda>t. call (RenewLease t queueItem LEASE_TIME)) renewals s5
                         in
                         (case coll of
                            None \<Rightarrow> (Panicked, queueItem, s6)
                          | Some c \<Rightarrow>
                              let c1 = c\<lparr>SecondaryIndexes_All :=
                                         map (\<lambda>index. index\<lparr>State := INDEX_ACTIVE\<rparr>)
                                           (SecondaryIndexes_All c)\<rparr>
                              in
                              (case startTx e (trace s6) of
                                 Inl err \<Rightarrow> (Returned (Some err), queueItem, call StartTx s6)
                               | Inr t \<Rightarrow>
                                   let s7 = call StartTx s6;
                                       uerr = updateCollectionIndexes e (trace s7) tenant t db
                                                (Name c1) (SecondaryIndexes_All c1);
                                       s8 = call (UpdateCollectionIndexes tenant t db
                                                (Name c1) (SecondaryIndexes_All c1)) s7
                                   in
                                   if ulog_E e uerr then (Returned uerr, queueItem, s8)
                                   else
                                     let cerr = complete e (trace s8) t queueItem;
                                         s9 = call (Complete t queueItem) s8
                                     in
                                     if ulog_E e cerr then (Returned cerr, queueItem, s9)
                                     else (Returned (commit e (trace s9) t), queueItem,
                                           call (Commit t) s9)))))))"

subsection \<open>processItem\<close>

definition processItem ::
  "env \<Rightarrow> QueueItem \<Rightarrow> state \<Rightarrow> error option outcome \<times> QueueItem \<times> state" where
  "processItem e queueItem s =
     (case TaskType queueItem of
        BUILD_INDEX_QUEUE_TASK \<Rightarrow> buildIndexTask e queueItem s
      | TEST_QUEUE_TASK \<Rightarrow> testQueueTask e queueItem s
      | OtherTask x \<Rightarrow> (Returned (Some (Error ''unknown job type'')), queueItem, s))"

subsection \<open>peekAndProcess\<close>

text \<open>
  \<^verbatim>\<open>ObtainLease\<close> returns a pointer and an error; the debug line that follows reads
  \<^verbatim>\<open>selectedItem.Id\<close> before the error is looked at, so a nil pointer panics there.
\<close>

definition peekAndProcess :: "env \<Rightarrow> state \<Rightarrow> error option outcome \<times> state" where
  "peekAndProcess e s =
     (case startTx e (trace s) of
        Inl err \<Rightarrow> (Returned (Some err), call StartTx s)
      | Inr t \<Rightarrow>
          let s1 = call StartTx s;
              pk = peek e (trace s1) t PEAK_JOB_ITEMS;
              s2 = call (Peek t PEAK_JOB_ITEMS) s1
          in
          (case pk of
             Inl err \<Rightarrow> (Returned (Some err), s2)
           | Inr [] \<Rightarrow> (Returned (rollback e (trace s2) t), call (Rollback t) s2)
           | Inr (item0 # rest) \<Rightarrow>
               let ol = obtainLease e (trace s2) t item0 LEASE_TIME;
                   s3 = call (ObtainLease t item0 LEASE_TIME) s2
               in
               (case ol of
                  (None, oerr) \<Rightarrow> (Panicked, s3)
                | (Some selectedItem, Some err) \<Rightarrow> (Returned (Some err), s3)
                | (Some selectedItem, None) \<Rightarrow>
                    (case commit e (trace s3) t of
                       Some err \<Rightarrow> (Returned (Some err), call (Commit t) s3)
                     | None \<Rightarrow>
                         (case processItem e selectedItem (call (Commit t) s3) of
                            (Returned (Some err), item1, s5) \<Rightarrow>
                              (case handleFailedProcessing e item1 s5 of
                                 (r, item2, s6) \<Rightarrow> (r, s6))
                          | (Returned None, item1, s5) \<Rightarrow>
                              (Returned None,
                               call (SendEvent (newEvent True item1 (id (self s5)))) s5)
                          | (Panicked, item1, s5) \<Rightarrow> (Panicked, s5)
                          | (Blocked, item1, s5) \<Rightarrow> (Blocked, s5))))))"

subsection \<open>The worker's loop\<close>

text \<open>
  One entry of the schedule per pass through the \<^verbatim>\<open>for\<close> body: whether a
  \<^verbatim>\<open>Stop()\<close> from outside has arrived since the last pass, whether the heartbeat
  ticker has fired, which ready case the \<^verbatim>\<open>select\<close> takes when both are ready,
  and the value of \<^verbatim>\<open>rand.Intn(500)\<close> for the sleep that ends the pass. The
  \<^verbatim>\<open>default\<close> case is taken when neither channel is ready. The local counter
  \<^verbatim>\<open>c\<close> is written and never read, and is left out.
\<close>

record select_input =
  ext_stop :: bool
  tick_ready :: bool
  pick_done :: bool
  jitter :: nat

datatype loop_status = Running | Exited | Crashed | Hung

definition jitterSleep :: "nat \<Rightarrow> state \<Rightarrow> state" where
  "jitterSleep j s =
     call (TimeSleep (of_nat (j mod 500) * Millisecond + sleepTime (self s))) s"

definition receive_stop :: "select_input \<Rightarrow> state \<Rightarrow> state" where
  "receive_stop i s =
     (if ext_stop i \<and> done_chan (self s) < 1
      then s\<lparr>self := (self s)\<lparr>done_chan := 1\<rparr>\<rparr> else s)"

definition takes_done :: "select_input \<Rightarrow> state \<Rightarrow> bool" where
  "takes_done i s0 \<longleftrightarrow> 0 < done_chan (self s0) \<and> (\<not> tick_ready i \<or> pick_done i)"

definition iterate :: "env \<Rightarrow> select_input \<Rightarrow> state \<Rightarrow> loop_status \<times> state" where
  "iterate e i s =
     (let s0 = receive_stop i s
      in if takes_done i s0 then
           (Exited, call RecvDone (s0\<lparr>self := (self s0)\<lparr>done_chan := done_chan (self s0) - 1\<rparr>\<rparr>))
         else if tick_ready i then
           (Running, jitterSleep (jitter i) (call (SendHeartbeat (id (self s0))) s0))
         else
           (case peekAndProcess e s0 of
              (Returned (Some err), s1) \<Rightarrow>
                let s2 = s1\<lparr>self := (self s1)\<lparr>errCount := errCount (self s1) + 1\<rparr>\<rparr>
                in if errCount (self s2) \<ge> MAX_ERROR_COUNT then (Exited, s2)
                   else (Running, jitterSleep (jitter i) s2)
            | (Returned None, s1) \<Rightarrow>
                (Running, jitterSleep (jitter i) (s1\<lparr>self := (self s1)\<lparr>errCount := 0\<rparr>\<rparr>))
            | (Panicked, s1) \<Rightarrow> (Crashed, s1)
            | (Blocked, s1) \<Rightarrow> (Hung, s1)))"

fun iterations :: "env \<Rightarrow> select_input list \<Rightarrow> state \<Rightarrow> loop_status \<times> state" where
  "iterations e [] s = (Running, s)"
| "iterations e (i # rest) s =
     (case iterate e i s of
        (Running, s1) \<Rightarrow> iterations e rest s1
      | (Exited, s1) \<Rightarrow> (Exited, s1)
      | (Crashed, s1) \<Rightarrow> (Crashed, s1)
      | (Hung, s1) \<Rightarrow> (Hung, s1))"

text \<open>
  \<^verbatim>\<open>time.NewTicker(d)\<close> panics unless \<open>d\<close> is positive. The result of \<open>Worker_Loop\<close> on a
  schedule is the state after that many passes: \<open>Running\<close> when the loop is still going.
\<close>

definition Worker_Loop :: "env \<Rightarrow> select_input list \<Rightarrow> state \<Rightarrow> loop_status \<times> state" where
  "Worker_Loop e sched s =
     (if 2 * sleepTime (self s) \<le>s 0 then (Crashed, s) else iterations e sched s)"

definition Worker_Start :: "env \<Rightarrow> nat \<Rightarrow> select_input list \<Rightarrow> state \<Rightarrow> loop_status \<times> state" where
  "Worker_Start e j sched s = Worker_Loop e sched (jitterSleep j s)"

subsection \<open>The pool\<close>

text \<open>
  An instant is a count of nanoseconds; \<^verbatim>\<open>Time.Sub\<close> saturates at the ends of
  \<^verbatim>\<open>Duration\<close>. The counters of the pool (\<^verbatim>\<open>maxWorkers\<close>,
  \<^verbatim>\<open>nextWorkerId\<close>) are \<^verbatim>\<open>uint\<close>s, 64 bits wide on the platforms the server
  is built for: they wrap around. A worker's \<open>id\<close> holds the value of the
  \<^verbatim>\<open>uint\<close> it was made with.

  What the pool cannot decide by itself is in the record \<open>pool_env\<close>, as functions of
  the pool's history: the value of \<^verbatim>\<open>time.Now()\<close>, and, for a \<^verbatim>\<open>Stop()\<close>
  that finds the worker's \<open>done\<close> channel full, whether that worker's goroutine receives
  from the channel while the supervisor waits.
\<close>

type_synonym time = int
type_synonym uint = "64 word"

definition time_Sub :: "time \<Rightarrow> time \<Rightarrow> duration" where
  "time_Sub t u =
     (let d = t - u
      in if d > 9223372036854775807 then word_of_int 9223372036854775807
         else if d < - 9223372036854775808 then word_of_int (- 9223372036854775808)
         else word_of_int d)"

record WorkerInfo =
  worker :: Worker
  lastHearbeat :: time

record WorkerPool =
  maxWorkers :: uint
  workers :: "WorkerInfo list"
  nextWorkerId :: uint
  workerSleepTime :: duration
  poolSleepTime :: duration
  heartbeatChan_cap :: nat
  eventChan_cap :: nat
  eventListeners :: "nat list"

datatype pool_action =
    TimeNow
  | GoWorkerStart nat
  | WorkerStop nat
  | GoPoolLoop
  | Notify nat Event

record pool_env =
  time_Now :: "pool_action list \<Rightarrow> time"
  done_received :: "pool_action list \<Rightarrow> nat \<Rightarrow> bool"

record pool_state =
  pool :: WorkerPool
  ptrace :: "pool_action list"

definition pcall :: "pool_action \<Rightarrow> pool_state \<Rightarrow> pool_state" where
  "pcall a s = s\<lparr>ptrace := ptrace s @ [a]\<rparr>"

text \<open>
  \<^verbatim>\<open>make(chan T, n)\<close> with \<open>n\<close> a \<^verbatim>\<open>uint\<close>: the capacity must lie in the range of
  \<^verbatim>\<open>int\<close>, otherwise \<^verbatim>\<open>make\<close> panics. \<^verbatim>\<open>maxWorkers*3\<close> is a product of
  \<^verbatim>\<open>uint\<close>s.
\<close>

definition make_chan :: "uint \<Rightarrow> nat outcome" where
  "make_chan n = (if unat n < 2 ^ 63 then Returned (unat n) else Panicked)"

definition NewWorkerPool :: "uint \<Rightarrow> duration \<Rightarrow> duration \<Rightarrow> WorkerPool outcome" where
  "NewWorkerPool maxWorkers_arg workerSleepTime_arg poolSleepTime_arg =
     (case make_chan (maxWorkers_arg * 3) of
        Returned hb \<Rightarrow>
          (case make_chan (maxWorkers_arg * 3) of
             Returned ev \<Rightarrow>
               Returned
                 \<lparr>maxWorkers = 1,
                  workers = [],
                  nextWorkerId = 0,
                  workerSleepTime = workerSleepTime_arg,
                  poolSleepTime = poolSleepTime_arg,
                  heartbeatChan_cap = hb,
                  eventChan_cap = ev,
                  eventListeners = []\<rparr>
           | Panicked \<Rightarrow> Panicked
           | Blocked \<Rightarrow> Blocked)
      | Panicked \<Rightarrow> Panicked
      | Blocked \<Rightarrow> Blocked)"

definition new_pool_state :: "WorkerPool \<Rightarrow> pool_state" where
  "new_pool_state p = \<lparr>pool = p, ptrace = []\<rparr>"

definition WorkerPool_newWorker :: "pool_env \<Rightarrow> uint \<Rightarrow> pool_state \<Rightarrow> WorkerInfo \<times> pool_state" where
  "WorkerPool_newWorker pe i s =
     (let w = newWorker (unat i) (workerSleepTime (pool s));
          s1 = pcall (GoWorkerStart (unat i)) s;
          now = time_Now pe (ptrace s1)
      in (\<lparr>worker = w, lastHearbeat = now\<rparr>, pcall TimeNow s1))"

text \<open>
  \<^verbatim>\<open>for i := uint(0); i < pool.maxWorkers; i++\<close>: the indices below
  \<^verbatim>\<open>maxWorkers\<close>, in order.
\<close>

fun WorkerPool_Start_loop :: "pool_env \<Rightarrow> nat list \<Rightarrow> pool_state \<Rightarrow> pool_state" where
  "WorkerPool_Start_loop pe [] s = s"
| "WorkerPool_Start_loop pe (i # rest) s =
     (let s1 = s\<lparr>pool := (pool s)\<lparr>nextWorkerId := of_nat i\<rparr>\<rparr>;
          r = WorkerPool_newWorker pe (of_nat i) s1;
          s2 = snd r;
          s3 = s2\<lparr>pool := (pool s2)\<lparr>workers := workers (pool s2) @ [fst r]\<rparr>\<rparr>
      in WorkerPool_Start_loop pe rest s3)"

definition WorkerPool_Start :: "pool_env \<Rightarrow> pool_state \<Rightarrow> pool_state" where
  "WorkerPool_Start pe s =
     pcall GoPoolLoop (WorkerPool_Start_loop pe [0 ..< unat (maxWorkers (pool s))] s)"

definition subscribe :: "nat \<Rightarrow> pool_state \<Rightarrow> pool_state" where
  "subscribe listener s =
     s\<lparr>pool := (pool s)\<lparr>eventListeners := eventListeners (pool s) @ [listener]\<rparr>\<rparr>"

definition notify :: "Event \<Rightarrow> pool_state \<Rightarrow> pool_state" where
  "notify event s = fold (\<lambda>listener. pcall (Notify listener event)) (eventListeners (pool s)) s"

fun rxHeartbeats_loop :: "nat \<Rightarrow> time \<Rightarrow> WorkerInfo list \<Rightarrow> WorkerInfo list option" where
  "rxHeartbeats_loop workerId now [] = None"
| "rxHeartbeats_loop workerId now (info # rest) =
     (if id (worker info) = workerId then Some (info\<lparr>lastHearbeat := now\<rparr> # rest)
      else map_option ((#) info) (rxHeartbeats_loop workerId now rest))"

definition rxHeartbeats :: "pool_env \<Rightarrow> nat \<Rightarrow> pool_state \<Rightarrow> pool_state" where
  "rxHeartbeats pe workerId s =
     (case rxHeartbeats_loop workerId (time_Now pe (ptrace s)) (workers (pool s)) of
        Some ws \<Rightarrow> pcall TimeNow (s\<lparr>pool := (pool s)\<lparr>workers := ws\<rparr>\<rparr>)
      | None \<Rightarrow> s)"

definition heartbeat_lost :: "duration \<Rightarrow> time \<Rightarrow> WorkerInfo \<Rightarrow> bool" where
  "heartbeat_lost wst now info \<longleftrightarrow> 5 * wst <s time_Sub now (lastHearbeat info)"

text \<open>
  The send \<^verbatim>\<open>w.done <- struct{}{}\<close> on the channel of capacity one, as it changes the
  worker: with the slot free the token is buffered, with the slot taken the send waits
  (\<open>None\<close>). \<open>Worker_Stop\<close> above is this send made by the worker itself.

  \<^verbatim>\<open>info.worker.Stop()\<close> is the same send made by the supervisor, on the worker in
  slot \<open>i\<close>. Where it has to wait, it returns when the worker's goroutine receives the
  pending token, and the supervisor stays blocked in it when that goroutine never does
  (it has left its loop, or it hangs).
\<close>

definition send_done :: "Worker \<Rightarrow> Worker option" where
  "send_done w = (if done_chan w < 1 then Some (w\<lparr>done_chan := done_chan w + 1\<rparr>) else None)"

definition WorkerInfo_Stop :: "pool_env \<Rightarrow> nat \<Rightarrow> pool_state \<Rightarrow> unit outcome \<times> pool_state" where
  "WorkerInfo_Stop pe i s =
     (let info = workers (pool s) ! i;
          s1 = pcall (WorkerStop (id (worker info))) s
      in case send_done (worker info) of
           Some w' \<Rightarrow>
             (Returned (),
              s1\<lparr>pool := (pool s1)\<lparr>workers := (workers (pool s1))[i := info\<lparr>worker := w'\<rparr>]\<rparr>\<rparr>)
         | None \<Rightarrow>
             if done_received pe (ptrace s1) (id (worker info)) then (Returned (), s1)
             else (Blocked, s1))"

text \<open>
  The body of the \<^verbatim>\<open>for i, info := range pool.workers\<close> loop for one index,
  and the loop over the indices of the slice as it is when the loop starts. A
  \<^verbatim>\<open>Stop()\<close> that does not return ends the sweep there.
\<close>

definition checkHeartbeats_body ::
  "pool_env \<Rightarrow> time \<Rightarrow> nat \<Rightarrow> pool_state \<Rightarrow> unit outcome \<times> pool_state" where
  "checkHeartbeats_body pe now i s =
     (let info = workers (pool s) ! i
      in if heartbeat_lost (workerSleepTime (pool s)) now info then
           (case WorkerInfo_Stop pe i s of
              (Returned u, s1) \<Rightarrow>
                let s2 = s1\<lparr>pool := (pool s1)\<lparr>nextWorkerId := nextWorkerId (pool s1) + 1\<rparr>\<rparr>;
                    r = WorkerPool_newWorker pe (nextWorkerId (pool s2)) s2;
                    s3 = snd r
                in (Returned (),
                    s3\<lparr>pool := (pool s3)\<lparr>workers := (workers (pool s3))[i := fst r]\<rparr>\<rparr>)
            | (Panicked, s1) \<Rightarrow> (Panicked, s1)
            | (Blocked, s1) \<Rightarrow> (Blocked, s1))
         else (Returned (), s))"

fun checkHeartbeats_loop ::
  "pool_env \<Rightarrow> time \<Rightarrow> nat list \<Rightarrow> pool_state \<Rightarrow> unit outcome \<times> pool_state" where
  "checkHeartbeats_loop pe now [] s = (Returned (), s)"
| "checkHeartbeats_loop pe now (i # rest) s =
     (case checkHeartbeats_body pe now i s of
        (Returned u, s1) \<Rightarrow> checkHeartbeats_loop pe now rest s1
      | (Panicked, s1) \<Rightarrow> (Panicked, s1)
      | (Blocked, s1) \<Rightarrow> (Blocked, s1))"

definition checkHeartbeats :: "pool_env \<Rightarrow> pool_state \<Rightarrow> unit outcome \<times> pool_state" where
  "checkHeartbeats pe s =
     (let now = time_Now pe (ptrace s);
          s1 = pcall TimeNow s
      in checkHeartbeats_loop pe now [0 ..< length (workers (pool s1))] s1)"

text \<open>
  What the goroutine of the worker in slot \<open>i\<close> does to its \<open>done\<close> channel: the send
  of \<^verbatim>\<open>w.Stop()\<close> in \<^verbatim>\<open>testQueueTask\<close>, and the receive \<^verbatim>\<open>case <-w.done\<close> of
  its loop.
\<close>

definition worker_stops_itself :: "nat \<Rightarrow> pool_state \<Rightarrow> pool_state" where
  "worker_stops_itself i s =
     (if i < length (workers (pool s)) then
        (case send_done (worker (workers (pool s) ! i)) of
           Some w' \<Rightarrow>
             s\<lparr>pool := (pool s)\<lparr>workers :=
                  (workers (pool s))[i := (workers (pool s) ! i)\<lparr>worker := w'\<rparr>]\<rparr>\<rparr>
         | None \<Rightarrow> s)
      else s)"

definition worker_receives_done :: "nat \<Rightarrow> pool_state \<Rightarrow> pool_state" where
  "worker_receives_done i s =
     (if i < length (workers (pool s)) \<and> 0 < done_chan (worker (workers (pool s) ! i)) then
        s\<lparr>pool := (pool s)\<lparr>workers :=
             (workers (pool s))[i := (workers (pool s) ! i)
                \<lparr>worker := (worker (workers (pool s) ! i))
                   \<lparr>done_chan := done_chan (worker (workers (pool s) ! i)) - 1\<rparr>\<rparr>]\<rparr>\<rparr>
      else s)"

text \<open>
  The supervisor's \<^verbatim>\<open>select\<close> receives a stop signal, a heartbeat, an event or a
  tick; \<^verbatim>\<open>subscribe\<close> is called by other goroutines under the same mutex; the
  workers' goroutines send and receive on their \<open>done\<close> channels. A list of these, in
  the order they happen, drives the loop. A tick that blocks in \<^verbatim>\<open>Stop()\<close> leaves
  the supervisor \<open>Hung\<close>.
\<close>

datatype pool_event =
    StopSignal
  | HeartbeatRx nat
  | EventRx Event
  | Tick
  | Subscribe nat
  | WorkerStopsItself nat
  | WorkerReceivesDone nat

fun supervise :: "pool_env \<Rightarrow> pool_event list \<Rightarrow> pool_state \<Rightarrow> loop_status \<times> pool_state" where
  "supervise pe [] s = (Running, s)"
| "supervise pe (StopSignal # rest) s = (Exited, s)"
| "supervise pe (HeartbeatRx i # rest) s = supervise pe rest (rxHeartbeats pe i s)"
| "supervise pe (EventRx ev # rest) s = supervise pe rest (notify ev s)"
| "supervise pe (Tick # rest) s =
     (case checkHeartbeats pe s of
        (Returned u, s1) \<Rightarrow> supervise pe rest s1
      | (Panicked, s1) \<Rightarrow> (Crashed, s1)
      | (Blocked, s1) \<Rightarrow> (Hung, s1))"
| "supervise pe (Subscribe l # rest) s = supervise pe rest (subscribe l s)"
| "supervise pe (WorkerStopsItself i # rest) s = supervise pe rest (worker_stops_itself i s)"
| "supervise pe (WorkerReceivesDone i # rest) s = supervise pe rest (worker_receives_done i s)"

definition WorkerPool_Loop ::
  "pool_env \<Rightarrow> pool_event list \<Rightarrow> pool_state \<Rightarrow> loop_status \<times> pool_state" where
  "WorkerPool_Loop pe evs s =
     (if poolSleepTime (pool s) \<le>s 0 then (Crashed, s) else supervise pe evs s)"

fun spawned :: "pool_action list \<Rightarrow> nat list" where
  "spawned [] = []"
| "spawned (GoWorkerStart i # rest) = i # spawned rest"
| "spawned (a # rest) = spawned rest"

text \<open>
  The state of a pool made by \<open>NewWorkerPool\<close> and started: one slot; the ids of the
  workers started so far, in the order they were started, are the values of the
  \<^verbatim>\<open>uint\<close>s \<open>0, 1, 2, \<dots>\<close>, and \<open>nextWorkerId + 1\<close> is their number as a
  \<^verbatim>\<open>uint\<close>.
\<close>

definition uint_value :: "nat \<Rightarrow> nat" where
  "uint_value k = unat (of_nat k :: uint)"

definition pool_inv :: "duration \<Rightarrow> pool_state \<Rightarrow> bool" where
  "pool_inv wst s \<longleftrightarrow>
     length (workers (pool s)) = 1 \<and>
     workerSleepTime (pool s) = wst \<and>
     spawned (ptrace s) \<noteq> [] \<and>
     spawned (ptrace s) = map uint_value [0 ..< length (spawned (ptrace s))] \<and>
     nextWorkerId (pool s) + 1 = of_nat (length (spawned (ptrace s)))"

subsection \<open>The queue's store\<close>










subsection \<open>Reading a trace\<close>

fun is_Dequeue :: "action \<Rightarrow> bool" where
  "is_Dequeue (Dequeue t i) = True"
| "is_Dequeue a = False"

fun is_Requeue :: "action \<Rightarrow> bool" where
  "is_Requeue (Requeue t i d) = True"
| "is_Requeue a = False"

fun is_Complete :: "action \<Rightarrow> bool" where
  "is_Complete (Complete t i) = True"
| "is_Complete a = False"

fun is_SendEvent :: "action \<Rightarrow> bool" where
  "is_SendEvent (SendEvent ev) = True"
| "is_SendEvent a = False"

text \<open>The calls made between two states of the same run.\<close>

definition added :: "state \<Rightarrow> state \<Rightarrow> history" where
  "added s s' = drop (length (trace s)) (trace s')"

subsection \<open>A sample environment\<close>

text \<open>
  Collaborators that always succeed, over a four-word payload code, and variants in
  which one operation fails. They give the theorems below concrete runs.
\<close>

definition sample_unmarshalTest :: "bytes \<Rightarrow> error + WorkerTestTask" where
  "sample_unmarshalTest b =
     (if b = ''stop'' then Inr \<lparr>Sleep = 0, NumErrors = 0, ShouldStopWorker = True\<rparr>
      else if b = ''fail2'' then Inr \<lparr>Sleep = 0, NumErrors = 2, ShouldStopWorker = False\<rparr>
      else if b = ''fail1'' then Inr \<lparr>Sleep = 0, NumErrors = 1, ShouldStopWorker = False\<rparr>
      else if b = ''ok'' then Inr \<lparr>Sleep = 0, NumErrors = 0, ShouldStopWorker = False\<rparr>
      else Inl (Error ''invalid payload''))"

definition sample_marshalTest :: "WorkerTestTask \<Rightarrow> bytes" where
  "sample_marshalTest t =
     (if ShouldStopWorker t then ''stop''
      else if NumErrors t = 2 then ''fail2''
      else if NumErrors t = 1 then ''fail1''
      else ''ok'')"

definition sample_env :: "QueueItem list \<Rightarrow> env" where
  "sample_env items =
     \<lparr>startTx = (\<lambda>h. Inr (length h)),
      commit = (\<lambda>h t. None),
      rollback = (\<lambda>h t. None),
      peek = (\<lambda>h t n. Inr (take n items)),
      obtainLease = (\<lambda>h t item d. (Some item, None)),
      complete = (\<lambda>h t item. None),
      requeue = (\<lambda>h t item d. None),
      dequeue = (\<lambda>h t item. None),
      unmarshalTest = sample_unmarshalTest,
      marshalTest = sample_marshalTest,
      unmarshalBuild = (\<lambda>b. Inl (Error ''invalid payload'')),
      getTenant = (\<lambda>h n. (Some n, None)),
      getProject = (\<lambda>h t p. Returned (Inr 0)),
      getDatabase = (\<lambda>h p d. Inr 0),
      getCollection = (\<lambda>h d c. Some \<lparr>Name = c, SecondaryIndexes_All = []\<rparr>),
      buildCollection = (\<lambda>h c. Returned ([], None)),
      updateCollectionIndexes = (\<lambda>h tn t d c ixs. None),
      ulog_E = (\<lambda>err. err \<noteq> None)\<rparr>"

definition env_no_tx :: env where
  "env_no_tx = (sample_env [])\<lparr>startTx := (\<lambda>h. Inl (Error ''transaction unavailable''))\<rparr>"

definition env_commit_fails :: env where
  "env_commit_fails = (sample_env [])\<lparr>commit := (\<lambda>h t. Some (Error ''commit failed''))\<rparr>"

definition env_dequeue_fails :: env where
  "env_dequeue_fails = (sample_env [])\<lparr>dequeue := (\<lambda>h t item. Some (Error ''dequeue failed''))\<rparr>"

definition sample_item :: "task_type \<Rightarrow> bytes \<Rightarrow> nat \<Rightarrow> QueueItem" where
  "sample_item ty d n = \<lparr>Id = ''item'', TaskType = ty, Data = d, ErrorCount = n\<rparr>"

definition sample_state :: state where
  "sample_state = \<lparr>self = newWorker 0 10000000, trace = []\<rparr>"

definition stop_pending_state :: state where
  "stop_pending_state = \<lparr>self = (newWorker 0 10000000)\<lparr>done_chan := 1\<rparr>, trace = []\<rparr>"

definition env_rollback_fails :: env where
  "env_rollback_fails = (sample_env [])\<lparr>rollback := (\<lambda>h t. Some (Error ''rollback failed''))\<rparr>"

definition sample_build_task :: IndexBuildTask where
  "sample_build_task = \<lparr>NamespaceId = 7, ProjName = ''proj'', Branch = ''main'', CollName = ''coll''\<rparr>"

text \<open>
  A tenant manager that does not know the namespace: \<^verbatim>\<open>GetTenant\<close> returns a nil
  tenant and an error, and a method called on the nil tenant panics.
\<close>

definition env_tenant_missing :: env where
  "env_tenant_missing =
     (sample_env [])\<lparr>
        unmarshalBuild := (\<lambda>b. Inr sample_build_task),
        getTenant := (\<lambda>h n. (None, Some (Error ''tenant not found''))),
        getProject := (\<lambda>h tn p. case tn of None \<Rightarrow> Panicked | Some x \<Rightarrow> Returned (Inr 0))\<rparr>"

text \<open>A pass of the worker's loop with nothing to receive, and a clock for the pool
  that advances by one millisecond with every action of the pool.\<close>

definition quiet_pass :: select_input where
  "quiet_pass = \<lparr>ext_stop = False, tick_ready = False, pick_done = False, jitter = 0\<rparr>"











definition failing_worker_run :: "loop_status \<times> state" where
  "failing_worker_run =
     Worker_Start env_no_tx 0 (replicate 10 quiet_pass) \<lparr>self = newWorker 0 10000000, trace = []\<rparr>"

section \<open>Properties\<close>

subsection \<open>The failed-processing policy\<close>

lemma handleFailedProcessing_cases:
  "handleFailedProcessing e item s =
     (let item' = item\<lparr>ErrorCount := ErrorCount item + 1\<rparr> in
      case startTx e (trace s) of
        Inl err \<Rightarrow> (Returned (Some err), item', s\<lparr>trace := trace s @ [StartTx]\<rparr>)
      | Inr t \<Rightarrow>
          if MAX_ERROR_COUNT \<le> ErrorCount item' then
            let h = trace s @ [StartTx, SendEvent (newEvent False item' (id (self s)))] in
            (case dequeue e h t item' of
               Some err \<Rightarrow> (Returned (Some err), item', s\<lparr>trace := h @ [Dequeue t item']\<rparr>)
             | None \<Rightarrow> (Returned (commit e (h @ [Dequeue t item']) t), item',
                         s\<lparr>trace := h @ [Dequeue t item', Commit t]\<rparr>))
          else
            let d = sleepTime (self s) * of_nat (ErrorCount item');
                h = trace s @ [StartTx] in
            (case requeue e h t item' d of
               Some err \<Rightarrow> (Returned (Some err), item', s\<lparr>trace := h @ [Requeue t item' d]\<rparr>)
             | None \<Rightarrow> (Returned (commit e (h @ [Requeue t item' d]) t), item',
                         s\<lparr>trace := h @ [Requeue t item' d, Commit t]\<rparr>)))"
  by (simp add: handleFailedProcessing_def call_def Let_def split: sum.splits option.splits)

text \<open>
  C2, as the code has it. The item's \<open>ErrorCount\<close> goes up by exactly one. When the
  new transaction cannot be started, its error is returned and nothing else is called.
  When it starts: with the incremented count at \<open>MAX_ERROR_COUNT\<close> or above, the
  failure event is sent and \<open>Dequeue\<close> is called on the item, and nothing is requeued;
  below it, \<open>Requeue\<close> is called with the delay \<open>sleepTime\<close> times the incremented
  count (in \<^verbatim>\<open>Duration\<close> arithmetic) and no event is sent. In every run, a
  \<open>Dequeue\<close> is called only with the incremented count at \<open>MAX_ERROR_COUNT\<close> or above.
\<close>

theorem handleFailedProcessing_policy:
  "case handleFailedProcessing e item s of (r, item', s') \<Rightarrow>
     item' = item\<lparr>ErrorCount := ErrorCount item + 1\<rparr> \<and> self s' = self s \<and>
     (case startTx e (trace s) of
        Inl err \<Rightarrow> r = Returned (Some err) \<and> added s s' = [StartTx]
      | Inr t \<Rightarrow>
          if MAX_ERROR_COUNT \<le> ErrorCount item' then
            take 3 (added s s') =
              [StartTx, SendEvent (newEvent False item' (id (self s))), Dequeue t item'] \<and>
            \<not> list_ex is_Requeue (added s s')
          else
            take 2 (added s s') =
              [StartTx, Requeue t item' (sleepTime (self s) * of_nat (ErrorCount item'))] \<and>
            \<not> list_ex is_SendEvent (added s s')) \<and>
     (list_ex is_Dequeue (added s s') \<longrightarrow> MAX_ERROR_COUNT \<le> ErrorCount item')"
  by (simp add: handleFailedProcessing_cases added_def Let_def split: sum.splits option.splits)

theorem handleFailedProcessing_policy_witness:
  "list_ex is_Dequeue
     (added sample_state (snd (snd (handleFailedProcessing (sample_env [])
        (sample_item TEST_QUEUE_TASK ''fail1'' 9) sample_state)))) \<and>
   MAX_ERROR_COUNT \<le> ErrorCount (fst (snd (handleFailedProcessing (sample_env [])
        (sample_item TEST_QUEUE_TASK ''fail1'' 9) sample_state))) \<and>
   take 2 (added sample_state (snd (snd (handleFailedProcessing (sample_env [])
        (sample_item TEST_QUEUE_TASK ''fail1'' 2) sample_state)))) =
     [StartTx, Requeue 0 (sample_item TEST_QUEUE_TASK ''fail1'' 3) 30000000]"
  using handleFailedProcessing_policy [where e = "sample_env []"
        and item = "sample_item TEST_QUEUE_TASK ''fail1'' 9" and s = sample_state]
    handleFailedProcessing_policy [where e = "sample_env []"
        and item = "sample_item TEST_QUEUE_TASK ''fail1'' 2" and s = sample_state]
  by (simp add: handleFailedProcessing_def sample_env_def sample_item_def sample_state_def
      newWorker_def call_def added_def MAX_ERROR_COUNT_def Let_def)

text \<open>
  C2 as it is written fails where \<^verbatim>\<open>StartTx\<close> fails: the item's incremented count
  is 1, below \<open>MAX_ERROR_COUNT\<close>, and no \<open>Requeue\<close> is called; the error of
  \<^verbatim>\<open>StartTx\<close> is returned.
\<close>

theorem handleFailedProcessing_without_tx:
  "ErrorCount (fst (snd (handleFailedProcessing env_no_tx
      (sample_item TEST_QUEUE_TASK ''fail1'' 0) sample_state))) = 1 \<and>
   1 < MAX_ERROR_COUNT \<and>
   \<not> list_ex is_Requeue (trace (snd (snd (handleFailedProcessing env_no_tx
      (sample_item TEST_QUEUE_TASK ''fail1'' 0) sample_state)))) \<and>
   fst (handleFailedProcessing env_no_tx
      (sample_item TEST_QUEUE_TASK ''fail1'' 0) sample_state) =
     Returned (Some (Error ''transaction unavailable''))"
  by (simp add: handleFailedProcessing_def env_no_tx_def sample_env_def sample_item_def
      sample_state_def newWorker_def call_def MAX_ERROR_COUNT_def Let_def)

text \<open>
  The delay of the requeue is a product of \<^verbatim>\<open>Duration\<close>s. Below
  \<open>MAX_ERROR_COUNT\<close>, and with a sleep time that is not negative and whose product
  with the count fits in 63 bits, it is the product of the integers.
\<close>

lemma requeue_delay_exact:
  fixes st :: duration
  assumes "0 \<le> sint st" and "n < MAX_ERROR_COUNT" and "sint st * int n < 2 ^ 63"
  shows "sint (st * of_nat n) = sint st * int n"
proof -
  have "sint (of_nat n :: 64 word) = signed_take_bit 63 (int n)"
    by (simp add: signed_of_nat)
  also have "\<dots> = int n"
    using assms(2) by (intro signed_take_bit_int_eq_self) (simp_all add: MAX_ERROR_COUNT_def)
  finally have n: "sint (of_nat n :: 64 word) = int n" .
  have lo: "- (2 ^ 63) \<le> sint st * int n"
  proof -
    have "0 \<le> sint st * int n" using assms(1) by simp
    then show ?thesis by (smt (verit) zero_le_power)
  qed
  have "sint (st * of_nat n) = signed_take_bit 63 (sint st * sint (of_nat n :: 64 word))"
    by (simp add: sint_word_ariths)
  also have "\<dots> = sint st * int n"
    unfolding n using lo assms(3) by (intro signed_take_bit_int_eq_self) simp_all
  finally show ?thesis .
qed

text \<open>
  C10. With the incremented count at \<open>MAX_ERROR_COUNT\<close> or above and the transaction
  started, the failure event is sent first, then \<open>Dequeue\<close> is called, then, if that
  succeeded, the transaction is committed. Whatever \<open>Dequeue\<close> and the commit answer,
  the event is in the trace before them: it has been sent also when one of them fails
  and the function returns that error.
\<close>

theorem failure_event_precedes_dequeue:
  assumes "MAX_ERROR_COUNT \<le> ErrorCount item + 1"
    and "startTx e (trace s) = Inr t"
  shows "handleFailedProcessing e item s =
     (let item' = item\<lparr>ErrorCount := ErrorCount item + 1\<rparr>;
          h = trace s @ [StartTx, SendEvent (newEvent False item' (id (self s)))]
      in case dequeue e h t item' of
           Some err \<Rightarrow> (Returned (Some err), item', s\<lparr>trace := h @ [Dequeue t item']\<rparr>)
         | None \<Rightarrow> (Returned (commit e (h @ [Dequeue t item']) t), item',
                     s\<lparr>trace := h @ [Dequeue t item', Commit t]\<rparr>))"
  using assms by (simp add: handleFailedProcessing_cases Let_def)

theorem failure_event_precedes_dequeue_witness:
  "MAX_ERROR_COUNT \<le> ErrorCount (sample_item TEST_QUEUE_TASK ''fail1'' 9) + 1 \<and>
   startTx env_commit_fails (trace sample_state) = Inr 0 \<and>
   startTx env_dequeue_fails (trace sample_state) = Inr 0 \<and>
   handleFailedProcessing env_commit_fails (sample_item TEST_QUEUE_TASK ''fail1'' 9) sample_state =
     (Returned (Some (Error ''commit failed'')), sample_item TEST_QUEUE_TASK ''fail1'' 10,
      sample_state\<lparr>trace :=
        [StartTx, SendEvent (newEvent False (sample_item TEST_QUEUE_TASK ''fail1'' 10) 0),
         Dequeue 0 (sample_item TEST_QUEUE_TASK ''fail1'' 10), Commit 0]\<rparr>) \<and>
   handleFailedProcessing env_dequeue_fails (sample_item TEST_QUEUE_TASK ''fail1'' 9) sample_state =
     (Returned (Some (Error ''dequeue failed'')), sample_item TEST_QUEUE_TASK ''fail1'' 10,
      sample_state\<lparr>trace :=
        [StartTx, SendEvent (newEvent False (sample_item TEST_QUEUE_TASK ''fail1'' 10) 0),
         Dequeue 0 (sample_item TEST_QUEUE_TASK ''fail1'' 10)]\<rparr>)"
  using failure_event_precedes_dequeue [where e = env_commit_fails
        and item = "sample_item TEST_QUEUE_TASK ''fail1'' 9" and s = sample_state and t = 0]
    failure_event_precedes_dequeue [where e = env_dequeue_fails
        and item = "sample_item TEST_QUEUE_TASK ''fail1'' 9" and s = sample_state and t = 0]
  by (simp add: env_commit_fails_def env_dequeue_fails_def sample_env_def sample_item_def
      sample_state_def newWorker_def MAX_ERROR_COUNT_def Let_def)

subsection \<open>The handlers\<close>

lemma Worker_Stop_cases:
  "Worker_Stop s =
     (if done_chan (self s) < 1
      then (Returned (), s\<lparr>self := (self s)\<lparr>done_chan := 1\<rparr>, trace := trace s @ [SendDone]\<rparr>)
      else (Blocked, s\<lparr>trace := trace s @ [SendDone]\<rparr>))"
  by (simp add: Worker_Stop_def call_def Let_def)

text \<open>
  C5, as the code has it, for a TEST item whose payload decodes to \<open>task\<close>. The three
  cases are tried in this order. With \<open>ShouldStopWorker\<close> set, the flag is cleared (and
  \<open>NumErrors\<close> left alone), the payload is re-encoded into \<open>item.Data\<close> and \<open>Stop()\<close>
  is called on the worker itself: with the slot of the \<open>done\<close> channel free the handler
  returns the error "forced worker stop", with a token already pending the send blocks
  and the handler does not return. Otherwise, with \<open>NumErrors > 0\<close>, the count is
  decremented, the payload re-encoded into \<open>item.Data\<close> and the error "test error
  generated" returned, with no call made. Otherwise the handler sleeps for \<open>Sleep\<close> and
  starts a transaction; if that succeeds it calls \<open>Complete\<close> on the item, and if that
  succeeds it commits; the error of the first step that fails is returned and the later
  steps are not made.
\<close>

theorem testQueueTask_order:
  assumes "unmarshalTest e (Data item) = Inr task"
  shows "case testQueueTask e item s of (r, item', s') \<Rightarrow>
     (if ShouldStopWorker task then
        item' = item\<lparr>Data := marshalTest e (task\<lparr>ShouldStopWorker := False\<rparr>)\<rparr> \<and>
        added s s' = [SendDone] \<and>
        (if done_chan (self s) = 0
         then r = Returned (Some (Error (''forced worker stop '' @ show_nat (id (self s))))) \<and>
              self s' = (self s)\<lparr>done_chan := 1\<rparr>
         else r = Blocked \<and> self s' = self s)
      else if 0 < NumErrors task then
        item' = item\<lparr>Data := marshalTest e (task\<lparr>NumErrors := NumErrors task - 1\<rparr>)\<rparr> \<and>
        s' = s \<and>
        r = Returned (Some (Error (''test error generated '' @ show_int (NumErrors task - 1))))
      else
        item' = item \<and> self s' = self s \<and>
        (let h1 = trace s @ [TimeSleep (Sleep task)] in
         case startTx e h1 of
           Inl err \<Rightarrow> r = Returned (Some err) \<and> added s s' = [TimeSleep (Sleep task), StartTx]
         | Inr t \<Rightarrow>
             (case complete e (h1 @ [StartTx]) t item of
                Some err \<Rightarrow>
                  r = Returned (Some err) \<and>
                  added s s' = [TimeSleep (Sleep task), StartTx, Complete t item]
              | None \<Rightarrow>
                  r = Returned (commit e (h1 @ [StartTx, Complete t item]) t) \<and>
                  added s s' = [TimeSleep (Sleep task), StartTx, Complete t item, Commit t])))"
  using assms
  by (simp add: testQueueTask_def Worker_Stop_cases call_def added_def Let_def
      split: sum.splits option.splits)

theorem testQueueTask_order_witness:
  "unmarshalTest (sample_env []) (Data (sample_item TEST_QUEUE_TASK ''stop'' 0)) =
     Inr \<lparr>Sleep = 0, NumErrors = 0, ShouldStopWorker = True\<rparr> \<and>
   testQueueTask (sample_env []) (sample_item TEST_QUEUE_TASK ''stop'' 0) sample_state =
     (Returned (Some (Error ''forced worker stop 0'')),
      sample_item TEST_QUEUE_TASK ''ok'' 0,
      \<lparr>self = (newWorker 0 10000000)\<lparr>done_chan := 1\<rparr>, trace = [SendDone]\<rparr>) \<and>
   unmarshalTest (sample_env []) (Data (sample_item TEST_QUEUE_TASK ''fail2'' 0)) =
     Inr \<lparr>Sleep = 0, NumErrors = 2, ShouldStopWorker = False\<rparr> \<and>
   testQueueTask (sample_env []) (sample_item TEST_QUEUE_TASK ''fail2'' 0) sample_state =
     (Returned (Some (Error ''test error generated 1'')),
      sample_item TEST_QUEUE_TASK ''fail1'' 0, sample_state) \<and>
   unmarshalTest (sample_env []) (Data (sample_item TEST_QUEUE_TASK ''ok'' 0)) =
     Inr \<lparr>Sleep = 0, NumErrors = 0, ShouldStopWorker = False\<rparr> \<and>
   testQueueTask (sample_env []) (sample_item TEST_QUEUE_TASK ''ok'' 0) sample_state =
     (Returned None, sample_item TEST_QUEUE_TASK ''ok'' 0,
      sample_state\<lparr>trace := [TimeSleep 0, StartTx,
        Complete 1 (sample_item TEST_QUEUE_TASK ''ok'' 0), Commit 1]\<rparr>)"
  using testQueueTask_order [where e = "sample_env []"
        and item = "sample_item TEST_QUEUE_TASK ''stop'' 0" and s = sample_state
        and task = "\<lparr>Sleep = 0, NumErrors = 0, ShouldStopWorker = True\<rparr>"]
  by (simp add: testQueueTask_def Worker_Stop_cases call_def sample_env_def
      sample_unmarshalTest_def sample_marshalTest_def sample_item_def sample_state_def
      newWorker_def show_nat.simps show_int_def Let_def)

text \<open>
  C5 as it is written fails in two places. A worker that already has a stop token
  pending blocks in \<open>Stop()\<close> on the \<open>ShouldStopWorker\<close> path and returns no error; and
  on the last path, when the transaction cannot be started, \<open>Complete\<close> is not called.
\<close>

theorem testQueueTask_blocked_or_cut_short:
  "unmarshalTest (sample_env []) (Data (sample_item TEST_QUEUE_TASK ''stop'' 0)) =
     Inr \<lparr>Sleep = 0, NumErrors = 0, ShouldStopWorker = True\<rparr> \<and>
   fst (testQueueTask (sample_env []) (sample_item TEST_QUEUE_TASK ''stop'' 0)
          stop_pending_state) = Blocked \<and>
   unmarshalTest env_no_tx (Data (sample_item TEST_QUEUE_TASK ''ok'' 0)) =
     Inr \<lparr>Sleep = 0, NumErrors = 0, ShouldStopWorker = False\<rparr> \<and>
   fst (testQueueTask env_no_tx (sample_item TEST_QUEUE_TASK ''ok'' 0) sample_state) =
     Returned (Some (Error ''transaction unavailable'')) \<and>
   \<not> list_ex is_Complete
       (trace (snd (snd (testQueueTask env_no_tx (sample_item TEST_QUEUE_TASK ''ok'' 0)
          sample_state))))"
  by (simp add: testQueueTask_def Worker_Stop_cases call_def env_no_tx_def sample_env_def
      sample_unmarshalTest_def sample_marshalTest_def sample_item_def sample_state_def
      stop_pending_state_def newWorker_def Let_def)

text \<open>
  C9. An item whose task type is neither \<open>BUILD_INDEX\<close> nor \<open>TEST\<close> makes
  \<open>processItem\<close> return the error "unknown job type"; the item, the worker and the
  trace are as before, so no queue operation is invoked and no event is sent.
\<close>

theorem processItem_unknown_job_type:
  assumes "TaskType item \<noteq> BUILD_INDEX_QUEUE_TASK" and "TaskType item \<noteq> TEST_QUEUE_TASK"
  shows "processItem e item s = (Returned (Some (Error ''unknown job type'')), item, s)"
  using assms by (cases "TaskType item") (simp_all add: processItem_def)

theorem processItem_unknown_job_type_witness:
  "TaskType (sample_item (OtherTask ''compact'') ''ok'' 0) \<noteq> BUILD_INDEX_QUEUE_TASK \<and>
   TaskType (sample_item (OtherTask ''compact'') ''ok'' 0) \<noteq> TEST_QUEUE_TASK \<and>
   processItem (sample_env []) (sample_item (OtherTask ''compact'') ''ok'' 0) sample_state =
     (Returned (Some (Error ''unknown job type'')),
      sample_item (OtherTask ''compact'') ''ok'' 0, sample_state)"
  using processItem_unknown_job_type [where e = "sample_env []"
        and item = "sample_item (OtherTask ''compact'') ''ok'' 0" and s = sample_state]
  by (simp add: sample_item_def)

subsection \<open>peekAndProcess\<close>

lemma handleFailedProcessing_extends:
  "handleFailedProcessing e item s = (r, item', s') \<Longrightarrow> \<exists>xs. trace s' = trace s @ xs"
  by (auto simp: handleFailedProcessing_cases Let_def split: sum.splits option.splits if_splits)

lemma testQueueTask_extends:
  "testQueueTask e item s = (r, item', s') \<Longrightarrow> \<exists>xs. trace s' = trace s @ xs"
  by (auto simp: testQueueTask_def Worker_Stop_cases call_def Let_def
      split: sum.splits option.splits if_splits)

lemma fold_call_trace:
  "trace (fold (\<lambda>t. call (f t)) ts s) = trace s @ map f ts"
  by (induction ts arbitrary: s) (simp_all add: call_def)

lemma fold_call_self:
  "self (fold (\<lambda>t. call (f t)) ts s) = self s"
  by (induction ts arbitrary: s) (simp_all add: call_def)

lemma buildIndexTask_extends:
  "buildIndexTask e item s = (r, item', s') \<Longrightarrow> \<exists>xs. trace s' = trace s @ xs"
  by (auto simp: buildIndexTask_def call_def Let_def fold_call_trace
      split: sum.splits option.splits if_splits outcome.splits prod.splits)

lemma processItem_extends:
  "processItem e item s = (r, item', s') \<Longrightarrow> \<exists>xs. trace s' = trace s @ xs"
  by (cases "TaskType item")
     (auto simp: processItem_def dest: buildIndexTask_extends testQueueTask_extends)

lemma peekAndProcess_cases:
  "peekAndProcess e s =
     (case startTx e (trace s) of
        Inl err \<Rightarrow> (Returned (Some err), s\<lparr>trace := trace s @ [StartTx]\<rparr>)
      | Inr t \<Rightarrow>
          let h2 = trace s @ [StartTx, Peek t PEAK_JOB_ITEMS] in
          (case peek e (trace s @ [StartTx]) t PEAK_JOB_ITEMS of
             Inl err \<Rightarrow> (Returned (Some err), s\<lparr>trace := h2\<rparr>)
           | Inr [] \<Rightarrow> (Returned (rollback e h2 t), s\<lparr>trace := h2 @ [Rollback t]\<rparr>)
           | Inr (item0 # rest) \<Rightarrow>
               let h3 = h2 @ [ObtainLease t item0 LEASE_TIME] in
               (case obtainLease e h2 t item0 LEASE_TIME of
                  (None, oerr) \<Rightarrow> (Panicked, s\<lparr>trace := h3\<rparr>)
                | (Some sel, Some err) \<Rightarrow> (Returned (Some err), s\<lparr>trace := h3\<rparr>)
                | (Some sel, None) \<Rightarrow>
                    (case commit e h3 t of
                       Some err \<Rightarrow> (Returned (Some err), s\<lparr>trace := h3 @ [Commit t]\<rparr>)
                     | None \<Rightarrow>
                         (case processItem e sel (s\<lparr>trace := h3 @ [Commit t]\<rparr>) of
                            (Returned (Some err), item1, s5) \<Rightarrow>
                              (case handleFailedProcessing e item1 s5 of
                                 (r, item2, s6) \<Rightarrow> (r, s6))
                          | (Returned None, item1, s5) \<Rightarrow>
                              (Returned None,
                               s5\<lparr>trace := trace s5 @ [SendEvent (newEvent True item1 (id (self s5)))]\<rparr>)
                          | (Panicked, item1, s5) \<Rightarrow> (Panicked, s5)
                          | (Blocked, item1, s5) \<Rightarrow> (Blocked, s5))))))"
  by (simp add: peekAndProcess_def call_def Let_def
      split: sum.splits list.splits option.splits prod.splits outcome.splits)

lemma peekAndProcess_after_lease:
  assumes "startTx e (trace s) = Inr t"
    and "peek e (trace s @ [StartTx]) t PEAK_JOB_ITEMS = Inr (item0 # rest)"
    and "peekAndProcess e s = (r, s')"
  shows "\<exists>xs. trace s' = trace s @ [StartTx, Peek t PEAK_JOB_ITEMS, ObtainLease t item0 LEASE_TIME] @ xs
           \<and> (xs = [] \<or> hd xs = Commit t)"
proof -
  let ?h3 = "trace s @ [StartTx, Peek t PEAK_JOB_ITEMS, ObtainLease t item0 LEASE_TIME]"
  obtain sel oerr where ol: "obtainLease e (trace s @ [StartTx, Peek t PEAK_JOB_ITEMS]) t item0 LEASE_TIME = (sel, oerr)"
    by (cases "obtainLease e (trace s @ [StartTx, Peek t PEAK_JOB_ITEMS]) t item0 LEASE_TIME")
  show ?thesis
  proof (cases "\<exists>it. sel = Some it \<and> oerr = None \<and> commit e ?h3 t = None")
    case False
    then show ?thesis
      using assms ol
      by (auto simp: peekAndProcess_cases Let_def split: option.splits)
  next
    case True
    then obtain it where it: "sel = Some it" "oerr = None" "commit e ?h3 t = None" by blast
    obtain r5 item1 s5 where p: "processItem e it (s\<lparr>trace := ?h3 @ [Commit t]\<rparr>) = (r5, item1, s5)"
      by (cases "processItem e it (s\<lparr>trace := ?h3 @ [Commit t]\<rparr>)")
    from processItem_extends [OF p] obtain xs where xs: "trace s5 = ?h3 @ [Commit t] @ xs"
      by auto
    show ?thesis
    proof (cases r5)
      case (Returned x)
      show ?thesis
      proof (cases x)
        case None
        then show ?thesis using assms ol it p xs Returned
          by (auto simp: peekAndProcess_cases Let_def)
      next
        case (Some err)
        obtain r6 item2 s6 where h: "handleFailedProcessing e item1 s5 = (r6, item2, s6)"
          by (cases "handleFailedProcessing e item1 s5")
        from handleFailedProcessing_extends [OF h] obtain ys where "trace s6 = trace s5 @ ys"
          by auto
        then show ?thesis using assms ol it p xs Returned Some h
          by (auto simp: peekAndProcess_cases Let_def)
      qed
    next
      case Panicked
      then show ?thesis using assms ol it p xs
        by (auto simp: peekAndProcess_cases Let_def)
    next
      case Blocked
      then show ?thesis using assms ol it p xs
        by (auto simp: peekAndProcess_cases Let_def)
    qed
  qed
qed

text \<open>
  C6, as the code has it, for a cycle whose transaction has started. When \<open>Peek\<close>
  returns no items the transaction is rolled back and the call returns what the rollback
  returns: success exactly when the rollback succeeds. When \<open>Peek\<close> returns items,
  \<open>ObtainLease\<close> is called on the first of them with \<open>LEASE_TIME\<close>, one minute; whatever
  is called after that starts with the commit of the transaction, and the handler
  \<open>processItem\<close> is started only after a commit that succeeded, in the state that commit
  left.
\<close>

theorem peekAndProcess_lease:
  assumes "startTx e (trace s) = Inr t"
  shows "(peek e (trace s @ [StartTx]) t PEAK_JOB_ITEMS = Inr [] \<longrightarrow>
            peekAndProcess e s =
              (Returned (rollback e (trace s @ [StartTx, Peek t PEAK_JOB_ITEMS]) t),
               s\<lparr>trace := trace s @ [StartTx, Peek t PEAK_JOB_ITEMS, Rollback t]\<rparr>)) \<and>
         (\<forall>item0 rest. peek e (trace s @ [StartTx]) t PEAK_JOB_ITEMS = Inr (item0 # rest) \<longrightarrow>
            (let h3 = trace s @ [StartTx, Peek t PEAK_JOB_ITEMS, ObtainLease t item0 LEASE_TIME]
             in take 3 (added s (snd (peekAndProcess e s))) =
                  [StartTx, Peek t PEAK_JOB_ITEMS, ObtainLease t item0 LEASE_TIME] \<and>
                (3 < length (added s (snd (peekAndProcess e s))) \<longrightarrow>
                   added s (snd (peekAndProcess e s)) ! 3 = Commit t) \<and>
                (\<forall>sel. obtainLease e (trace s @ [StartTx, Peek t PEAK_JOB_ITEMS]) t item0 LEASE_TIME
                          = (Some sel, None) \<longrightarrow>
                   (case commit e h3 t of
                      Some err \<Rightarrow>
                        peekAndProcess e s = (Returned (Some err), s\<lparr>trace := h3 @ [Commit t]\<rparr>)
                    | None \<Rightarrow>
                        peekAndProcess e s =
                          (case processItem e sel (s\<lparr>trace := h3 @ [Commit t]\<rparr>) of
                             (Returned (Some err), item1, s5) \<Rightarrow>
                               (fst (handleFailedProcessing e item1 s5),
                                snd (snd (handleFailedProcessing e item1 s5)))
                           | (Returned None, item1, s5) \<Rightarrow>
                               (Returned None,
                                s5\<lparr>trace := trace s5 @ [SendEvent (newEvent True item1 (id (self s5)))]\<rparr>)
                           | (Panicked, item1, s5) \<Rightarrow> (Panicked, s5)
                           | (Blocked, item1, s5) \<Rightarrow> (Blocked, s5)))))) \<and>
         LEASE_TIME = 60000000000 \<and> PEAK_JOB_ITEMS = 5"
proof (intro conjI allI impI)
  show "LEASE_TIME = 60000000000" by (simp add: LEASE_TIME_def Minute_def)
  show "PEAK_JOB_ITEMS = 5" by (simp add: PEAK_JOB_ITEMS_def)
next
  assume "peek e (trace s @ [StartTx]) t PEAK_JOB_ITEMS = Inr []"
  with assms show "peekAndProcess e s =
      (Returned (rollback e (trace s @ [StartTx, Peek t PEAK_JOB_ITEMS]) t),
       s\<lparr>trace := trace s @ [StartTx, Peek t PEAK_JOB_ITEMS, Rollback t]\<rparr>)"
    by (simp add: peekAndProcess_cases Let_def)
next
  fix item0 rest
  assume pk: "peek e (trace s @ [StartTx]) t PEAK_JOB_ITEMS = Inr (item0 # rest)"
  obtain r s' where ps: "peekAndProcess e s = (r, s')" by (cases "peekAndProcess e s")
  from peekAndProcess_after_lease [OF assms pk ps] obtain xs where
    xs: "trace s' = trace s @ [StartTx, Peek t PEAK_JOB_ITEMS, ObtainLease t item0 LEASE_TIME] @ xs"
      "xs = [] \<or> hd xs = Commit t" by blast
  have a: "added s s' = [StartTx, Peek t PEAK_JOB_ITEMS, ObtainLease t item0 LEASE_TIME] @ xs"
    using xs(1) by (simp add: added_def)
  have b: "3 < length (added s s') \<longrightarrow> added s s' ! 3 = Commit t"
    using xs(2) a by (cases xs) auto
  have c: "\<forall>sel. obtainLease e (trace s @ [StartTx, Peek t PEAK_JOB_ITEMS]) t item0 LEASE_TIME
                          = (Some sel, None) \<longrightarrow>
       (case commit e (trace s @ [StartTx, Peek t PEAK_JOB_ITEMS, ObtainLease t item0 LEASE_TIME]) t of
          Some err \<Rightarrow>
            peekAndProcess e s = (Returned (Some err),
               s\<lparr>trace := (trace s @ [StartTx, Peek t PEAK_JOB_ITEMS, ObtainLease t item0 LEASE_TIME]) @ [Commit t]\<rparr>)
        | None \<Rightarrow>
            peekAndProcess e s =
              (case processItem e sel
                  (s\<lparr>trace := (trace s @ [StartTx, Peek t PEAK_JOB_ITEMS, ObtainLease t item0 LEASE_TIME]) @ [Commit t]\<rparr>) of
                 (Returned (Some err), item1, s5) \<Rightarrow>
                   (fst (handleFailedProcessing e item1 s5),
                    snd (snd (handleFailedProcessing e item1 s5)))
               | (Returned None, item1, s5) \<Rightarrow>
                   (Returned None,
                    s5\<lparr>trace := trace s5 @ [SendEvent (newEvent True item1 (id (self s5)))]\<rparr>)
               | (Panicked, item1, s5) \<Rightarrow> (Panicked, s5)
               | (Blocked, item1, s5) \<Rightarrow> (Blocked, s5)))"
    using assms pk
    by (auto simp: peekAndProcess_cases Let_def split: option.splits prod.splits outcome.splits)
  show "let h3 = trace s @ [StartTx, Peek t PEAK_JOB_ITEMS, ObtainLease t item0 LEASE_TIME]
        in take 3 (added s (snd (peekAndProcess e s))) =
             [StartTx, Peek t PEAK_JOB_ITEMS, ObtainLease t item0 LEASE_TIME] \<and>
           (3 < length (added s (snd (peekAndProcess e s))) \<longrightarrow>
              added s (snd (peekAndProcess e s)) ! 3 = Commit t) \<and>
           (\<forall>sel. obtainLease e (trace s @ [StartTx, Peek t PEAK_JOB_ITEMS]) t item0 LEASE_TIME
                     = (Some sel, None) \<longrightarrow>
              (case commit e h3 t of
                 Some err \<Rightarrow>
                   peekAndProcess e s = (Returned (Some err), s\<lparr>trace := h3 @ [Commit t]\<rparr>)
               | None \<Rightarrow>
                   peekAndProcess e s =
                     (case processItem e sel (s\<lparr>trace := h3 @ [Commit t]\<rparr>) of
                        (Returned (Some err), item1, s5) \<Rightarrow>
                          (fst (handleFailedProcessing e item1 s5),
                           snd (snd (handleFailedProcessing e item1 s5)))
                      | (Returned None, item1, s5) \<Rightarrow>
                          (Returned None,
                           s5\<lparr>trace := trace s5 @ [SendEvent (newEvent True item1 (id (self s5)))]\<rparr>)
                      | (Panicked, item1, s5) \<Rightarrow> (Panicked, s5)
                      | (Blocked, item1, s5) \<Rightarrow> (Blocked, s5))))"
    unfolding Let_def using a b c ps by simp
qed

theorem peekAndProcess_lease_witness:
  "startTx (sample_env [sample_item TEST_QUEUE_TASK ''ok'' 0]) (trace sample_state) = Inr 0 \<and>
   peek (sample_env [sample_item TEST_QUEUE_TASK ''ok'' 0]) (trace sample_state @ [StartTx]) 0
      PEAK_JOB_ITEMS = Inr [sample_item TEST_QUEUE_TASK ''ok'' 0] \<and>
   take 3 (added sample_state
      (snd (peekAndProcess (sample_env [sample_item TEST_QUEUE_TASK ''ok'' 0]) sample_state))) =
     [StartTx, Peek 0 PEAK_JOB_ITEMS,
      ObtainLease 0 (sample_item TEST_QUEUE_TASK ''ok'' 0) LEASE_TIME] \<and>
   peekAndProcess (sample_env [sample_item TEST_QUEUE_TASK ''ok'' 0]) sample_state =
     (Returned None,
      sample_state\<lparr>trace :=
        [StartTx, Peek 0 5, ObtainLease 0 (sample_item TEST_QUEUE_TASK ''ok'' 0) 60000000000,
         Commit 0, TimeSleep 0, StartTx, Complete 5 (sample_item TEST_QUEUE_TASK ''ok'' 0),
         Commit 5, SendEvent (newEvent True (sample_item TEST_QUEUE_TASK ''ok'' 0) 0)]\<rparr>) \<and>
   startTx (sample_env []) (trace sample_state) = Inr 0 \<and>
   peek (sample_env []) (trace sample_state @ [StartTx]) 0 PEAK_JOB_ITEMS = Inr [] \<and>
   peekAndProcess (sample_env []) sample_state =
     (Returned (rollback (sample_env []) (trace sample_state @ [StartTx, Peek 0 PEAK_JOB_ITEMS]) 0),
      sample_state\<lparr>trace := trace sample_state @ [StartTx, Peek 0 PEAK_JOB_ITEMS, Rollback 0]\<rparr>)"
proof -
  let ?it = "sample_item TEST_QUEUE_TASK ''ok'' 0"
  have tx1: "startTx (sample_env [?it]) (trace sample_state) = Inr 0"
    by (simp add: sample_env_def sample_state_def)
  have pk1: "peek (sample_env [?it]) (trace sample_state @ [StartTx]) 0 PEAK_JOB_ITEMS = Inr [?it]"
    by (simp add: sample_env_def PEAK_JOB_ITEMS_def)
  have tx0: "startTx (sample_env []) (trace sample_state) = Inr 0"
    by (simp add: sample_env_def sample_state_def)
  have pk0: "peek (sample_env []) (trace sample_state @ [StartTx]) 0 PEAK_JOB_ITEMS = Inr []"
    by (simp add: sample_env_def)
  have run: "peekAndProcess (sample_env [?it]) sample_state =
     (Returned None,
      sample_state\<lparr>trace :=
        [StartTx, Peek 0 5, ObtainLease 0 ?it 60000000000,
         Commit 0, TimeSleep 0, StartTx, Complete 5 ?it,
         Commit 5, SendEvent (newEvent True ?it 0)]\<rparr>)"
    by (simp add: peekAndProcess_def processItem_def testQueueTask_def call_def
        sample_env_def sample_unmarshalTest_def sample_item_def sample_state_def newWorker_def
        LEASE_TIME_def Minute_def PEAK_JOB_ITEMS_def Let_def)
  from peekAndProcess_lease [OF tx1] pk1
  have "let h3 = trace sample_state @ [StartTx, Peek 0 PEAK_JOB_ITEMS, ObtainLease 0 ?it LEASE_TIME]
        in take 3 (added sample_state (snd (peekAndProcess (sample_env [?it]) sample_state))) =
             [StartTx, Peek 0 PEAK_JOB_ITEMS, ObtainLease 0 ?it LEASE_TIME] \<and>
           (3 < length (added sample_state (snd (peekAndProcess (sample_env [?it]) sample_state))) \<longrightarrow>
              added sample_state (snd (peekAndProcess (sample_env [?it]) sample_state)) ! 3 = Commit 0) \<and>
           (\<forall>sel. obtainLease (sample_env [?it]) (trace sample_state @ [StartTx, Peek 0 PEAK_JOB_ITEMS]) 0
                      ?it LEASE_TIME = (Some sel, None) \<longrightarrow>
              (case commit (sample_env [?it]) h3 0 of
                 Some err \<Rightarrow>
                   peekAndProcess (sample_env [?it]) sample_state =
                     (Returned (Some err), sample_state\<lparr>trace := h3 @ [Commit 0]\<rparr>)
               | None \<Rightarrow>
                   peekAndProcess (sample_env [?it]) sample_state =
                     (case processItem (sample_env [?it]) sel (sample_state\<lparr>trace := h3 @ [Commit 0]\<rparr>) of
                        (Returned (Some err), item1, s5) \<Rightarrow>
                          (fst (handleFailedProcessing (sample_env [?it]) item1 s5),
                           snd (snd (handleFailedProcessing (sample_env [?it]) item1 s5)))
                      | (Returned None, item1, s5) \<Rightarrow>
                          (Returned None,
                           s5\<lparr>trace := trace s5 @ [SendEvent (newEvent True item1 (id (self s5)))]\<rparr>)
                      | (Panicked, item1, s5) \<Rightarrow> (Panicked, s5)
                      | (Blocked, item1, s5) \<Rightarrow> (Blocked, s5))))"
    by blast
  then have lease: "take 3 (added sample_state
        (snd (peekAndProcess (sample_env [?it]) sample_state))) =
      [StartTx, Peek 0 PEAK_JOB_ITEMS, ObtainLease 0 ?it LEASE_TIME]"
    unfolding Let_def by (rule conjunct1)
  from peekAndProcess_lease [OF tx0] pk0
  have empty: "peekAndProcess (sample_env []) sample_state =
     (Returned (rollback (sample_env []) (trace sample_state @ [StartTx, Peek 0 PEAK_JOB_ITEMS]) 0),
      sample_state\<lparr>trace := trace sample_state @ [StartTx, Peek 0 PEAK_JOB_ITEMS, Rollback 0]\<rparr>)"
    by blast
  from tx1 pk1 lease run tx0 pk0 empty show ?thesis by blast
qed

text \<open>
  C6 as it is written fails where the rollback fails: \<open>Peek\<close> returns no items, the
  transaction is rolled back, and the call returns the rollback's error.
\<close>

theorem peekAndProcess_returns_rollback_error:
  "peek env_rollback_fails (trace sample_state @ [StartTx]) 0 PEAK_JOB_ITEMS = Inr [] \<and>
   peekAndProcess env_rollback_fails sample_state =
     (Returned (Some (Error ''rollback failed'')),
      sample_state\<lparr>trace := [StartTx, Peek 0 5, Rollback 0]\<rparr>)"
  by (simp add: peekAndProcess_def call_def env_rollback_fails_def sample_env_def
      sample_state_def newWorker_def PEAK_JOB_ITEMS_def Let_def)












subsection \<open>The index-build task\<close>

text \<open>
  C3 at a namespace the tenant manager does not know. \<open>GetTenant\<close> returns an error;
  \<open>buildIndexTask\<close> has dropped it and called \<open>GetProject\<close> on the nil tenant, and it
  does not return that error.
\<close>

theorem buildIndexTask_drops_tenant_error:
  "unmarshalBuild env_tenant_missing (Data (sample_item BUILD_INDEX_QUEUE_TASK ''build'' 0)) =
     Inr sample_build_task \<and>
   getTenant env_tenant_missing (trace sample_state) (NamespaceId sample_build_task) =
     (None, Some (Error ''tenant not found'')) \<and>
   buildIndexTask env_tenant_missing (sample_item BUILD_INDEX_QUEUE_TASK ''build'' 0) sample_state =
     (Panicked, sample_item BUILD_INDEX_QUEUE_TASK ''build'' 0,
      sample_state\<lparr>trace := [GetTenant 7, GetProject None ''proj'']\<rparr>)"
  by (simp add: buildIndexTask_def call_def env_tenant_missing_def sample_env_def
      sample_build_task_def sample_item_def sample_state_def newWorker_def Let_def)

text \<open>The error of \<open>GetTenant\<close> has no influence on what \<open>buildIndexTask\<close> does.\<close>

lemma buildIndexTask_ignores_tenant_error:
  "buildIndexTask (e\<lparr>getTenant := (\<lambda>h n. (fst (getTenant e h n), err))\<rparr>) item s =
   buildIndexTask (e\<lparr>getTenant := (\<lambda>h n. (fst (getTenant e h n), None))\<rparr>) item s"
  by (simp add: buildIndexTask_def Let_def
      split: sum.split outcome.split option.split prod.split)

subsection \<open>The consecutive-failure counter\<close>

lemma handleFailedProcessing_self:
  "handleFailedProcessing e item s = (r, item', s') \<Longrightarrow> self s' = self s"
  by (auto simp: handleFailedProcessing_cases Let_def split: sum.splits option.splits if_splits)

lemma testQueueTask_errCount:
  "testQueueTask e item s = (r, item', s') \<Longrightarrow> errCount (self s') = errCount (self s)"
  by (auto simp: testQueueTask_def Worker_Stop_cases call_def Let_def
      split: sum.splits option.splits if_splits)

lemma buildIndexTask_self:
  "buildIndexTask e item s = (r, item', s') \<Longrightarrow> self s' = self s"
  by (auto simp: buildIndexTask_def call_def Let_def fold_call_self
      split: sum.splits option.splits if_splits outcome.splits prod.splits)

lemma processItem_errCount:
  "processItem e item s = (r, item', s') \<Longrightarrow> errCount (self s') = errCount (self s)"
  by (cases "TaskType item")
     (auto simp: processItem_def dest: buildIndexTask_self testQueueTask_errCount)

lemma peekAndProcess_errCount:
  "errCount (self (snd (peekAndProcess e s))) = errCount (self s)"
proof -
  have *: "errCount (self s6) = errCount (self s)"
    if "processItem e sel (s\<lparr>trace := h\<rparr>) = (r5, item1, s5)"
      and "handleFailedProcessing e item1 s5 = (r6, item2, s6)"
    for sel h r5 item1 s5 r6 item2 s6
    using processItem_errCount [OF that(1)] handleFailedProcessing_self [OF that(2)] by simp
  have **: "errCount (self s5) = errCount (self s)"
    if "processItem e sel (s\<lparr>trace := h\<rparr>) = (r5, item1, s5)"
    for sel h r5 item1 s5
    using processItem_errCount [OF that] by simp
  show ?thesis
    by (auto simp: peekAndProcess_cases Let_def * **
        split: sum.splits list.splits option.splits prod.splits outcome.splits)
qed

lemma jitterSleep_self: "self (jitterSleep j s) = self s"
  by (simp add: jitterSleep_def call_def)

lemma receive_stop_errCount: "errCount (self (receive_stop i s)) = errCount (self s)"
  by (simp add: receive_stop_def)

lemma iterate_errCount:
  "case iterate e i s of (status, s') \<Rightarrow>
     (let s0 = receive_stop i s in
      if takes_done i s0 \<or> tick_ready i then errCount (self s') = errCount (self s)
      else (case fst (peekAndProcess e s0) of
              Returned None \<Rightarrow> errCount (self s') = 0 \<and> status = Running
            | Returned (Some err) \<Rightarrow>
                errCount (self s') = errCount (self s) + 1 \<and>
                (if MAX_ERROR_COUNT \<le> errCount (self s') then status = Exited
                 else status = Running)
            | Panicked \<Rightarrow> errCount (self s') = errCount (self s) \<and> status = Crashed
            | Blocked \<Rightarrow> errCount (self s') = errCount (self s) \<and> status = Hung))"
proof -
  obtain r s1 where p: "peekAndProcess e (receive_stop i s) = (r, s1)"
    by (cases "peekAndProcess e (receive_stop i s)")
  have e1: "errCount (self s1) = errCount (self s)"
    using peekAndProcess_errCount [of e "receive_stop i s"] p
    by (simp add: receive_stop_errCount)
  show ?thesis
    using p e1
    by (auto simp: iterate_def Let_def call_def jitterSleep_self receive_stop_errCount
        split: outcome.splits option.splits)
qed

lemma iterate_bound:
  assumes "errCount (self s) < MAX_ERROR_COUNT" and "iterate e i s = (status, s')"
  shows "errCount (self s') \<le> MAX_ERROR_COUNT \<and>
         (status \<noteq> Exited \<longrightarrow> errCount (self s') < MAX_ERROR_COUNT)"
  using iterate_errCount [where e = e and i = i and s = s] assms
  by (auto simp: Let_def split: if_splits outcome.splits option.splits)

lemma iterations_bound:
  assumes "errCount (self s) < MAX_ERROR_COUNT" and "iterations e sched s = (status, s')"
  shows "errCount (self s') \<le> MAX_ERROR_COUNT \<and>
         (status \<noteq> Exited \<longrightarrow> errCount (self s') < MAX_ERROR_COUNT)"
  using assms
proof (induction sched arbitrary: s)
  case Nil
  then show ?case by auto
next
  case (Cons i rest)
  obtain st1 s1 where it: "iterate e i s = (st1, s1)" by (cases "iterate e i s")
  note b = iterate_bound [OF Cons.prems(1) it]
  show ?case
  proof (cases st1)
    case Running
    with b have "errCount (self s1) < MAX_ERROR_COUNT" by simp
    moreover from Cons.prems(2) it Running have "iterations e rest s1 = (status, s')" by simp
    ultimately show ?thesis by (rule Cons.IH)
  next
    case Exited
    with Cons.prems(2) it b show ?thesis by auto
  next
    case Crashed
    with Cons.prems(2) it b show ?thesis by auto
  next
    case Hung
    with Cons.prems(2) it b show ?thesis by auto
  qed
qed

text \<open>
  C4. A worker made by \<open>newWorker\<close> and started: after any number of passes of its
  loop \<open>errCount\<close> is at most \<open>MAX_ERROR_COUNT\<close>, and where it equals \<open>MAX_ERROR_COUNT\<close>
  the loop has been left. In a single pass, from any state: a pass that does not reach
  \<open>peekAndProcess\<close> leaves \<open>errCount\<close> alone; a successful \<open>peekAndProcess\<close> sets it to
  zero and the loop goes on; an error adds one, and the pass that brings the count to
  \<open>MAX_ERROR_COUNT\<close> is the one in which the loop is left.
\<close>

theorem errCount_bounded:
  "(case Worker_Start e j sched \<lparr>self = newWorker k st, trace = h\<rparr> of (status, s') \<Rightarrow>
      errCount (self s') \<le> MAX_ERROR_COUNT \<and>
      (errCount (self s') = MAX_ERROR_COUNT \<longrightarrow> status = Exited)) \<and>
   (case iterate e i s of (status, s') \<Rightarrow>
      (let s0 = receive_stop i s in
       if takes_done i s0 \<or> tick_ready i then errCount (self s') = errCount (self s)
       else (case fst (peekAndProcess e s0) of
               Returned None \<Rightarrow> errCount (self s') = 0 \<and> status = Running
             | Returned (Some err) \<Rightarrow>
                 errCount (self s') = errCount (self s) + 1 \<and>
                 (if MAX_ERROR_COUNT \<le> errCount (self s') then status = Exited
                  else status = Running)
             | Panicked \<Rightarrow> errCount (self s') = errCount (self s) \<and> status = Crashed
             | Blocked \<Rightarrow> errCount (self s') = errCount (self s) \<and> status = Hung)))"
proof (rule conjI)
  let ?s0 = "jitterSleep j \<lparr>self = newWorker k st, trace = h\<rparr>"
  have z: "errCount (self ?s0) < MAX_ERROR_COUNT"
    by (simp add: jitterSleep_self newWorker_def MAX_ERROR_COUNT_def)
  obtain status s' where l: "Worker_Start e j sched \<lparr>self = newWorker k st, trace = h\<rparr> = (status, s')"
    by (cases "Worker_Start e j sched \<lparr>self = newWorker k st, trace = h\<rparr>")
  have "errCount (self s') \<le> MAX_ERROR_COUNT \<and>
        (status \<noteq> Exited \<longrightarrow> errCount (self s') < MAX_ERROR_COUNT)"
  proof (cases "2 * sleepTime (self ?s0) \<le>s 0")
    case True
    with l have "s' = ?s0" "status = Crashed"
      by (simp_all add: Worker_Start_def Worker_Loop_def)
    with z show ?thesis by simp
  next
    case False
    with l have "iterations e sched ?s0 = (status, s')"
      by (simp add: Worker_Start_def Worker_Loop_def)
    from iterations_bound [OF z this] show ?thesis .
  qed
  with l show "case Worker_Start e j sched \<lparr>self = newWorker k st, trace = h\<rparr> of
      (status, s') \<Rightarrow> errCount (self s') \<le> MAX_ERROR_COUNT \<and>
      (errCount (self s') = MAX_ERROR_COUNT \<longrightarrow> status = Exited)"
    by auto
next
  show "case iterate e i s of (status, s') \<Rightarrow>
      (let s0 = receive_stop i s in
       if takes_done i s0 \<or> tick_ready i then errCount (self s') = errCount (self s)
       else (case fst (peekAndProcess e s0) of
               Returned None \<Rightarrow> errCount (self s') = 0 \<and> status = Running
             | Returned (Some err) \<Rightarrow>
                 errCount (self s') = errCount (self s) + 1 \<and>
                 (if MAX_ERROR_COUNT \<le> errCount (self s') then status = Exited
                  else status = Running)
             | Panicked \<Rightarrow> errCount (self s') = errCount (self s) \<and> status = Crashed
             | Blocked \<Rightarrow> errCount (self s') = errCount (self s) \<and> status = Hung))"
    by (rule iterate_errCount)
qed

theorem errCount_bounded_witness:
  "errCount (self (snd failing_worker_run)) = MAX_ERROR_COUNT \<and> fst failing_worker_run = Exited"
proof -
  have a: "errCount (self (snd failing_worker_run)) = MAX_ERROR_COUNT"
    by code_simp
  from errCount_bounded [where e = env_no_tx and j = 0 and sched = "replicate 10 quiet_pass"
      and k = 0 and st = 10000000 and h = "[]"]
  have "errCount (self (snd failing_worker_run)) = MAX_ERROR_COUNT \<longrightarrow>
        fst failing_worker_run = Exited"
    unfolding failing_worker_run_def case_prod_unfold by blast
  with a show ?thesis by blast
qed

subsection \<open>The pool\<close>

lemma NewWorkerPool_fields:
  assumes "NewWorkerPool m wst pst = Returned p"
  shows "maxWorkers p = 1 \<and> workers p = [] \<and> nextWorkerId p = 0 \<and>
         workerSleepTime p = wst \<and> poolSleepTime p = pst \<and> eventListeners p = []"
  using assms by (auto simp: NewWorkerPool_def split: outcome.splits)

lemma WorkerPool_Start_new:
  assumes "maxWorkers p = 1" and "workers p = []" and "nextWorkerId p = 0"
  shows "WorkerPool_Start pe (new_pool_state p) =
     \<lparr>pool = p\<lparr>workers := [\<lparr>worker = newWorker 0 (workerSleepTime p),
                               lastHearbeat = time_Now pe [GoWorkerStart 0]\<rparr>]\<rparr>,
      ptrace = [GoWorkerStart 0, TimeNow, GoPoolLoop]\<rparr>"
  using assms
  by (simp add: WorkerPool_Start_def new_pool_state_def WorkerPool_newWorker_def pcall_def Let_def)

lemma spawned_append: "spawned (xs @ ys) = spawned xs @ spawned ys"
  by (induction xs rule: spawned.induct) simp_all

lemma fold_pcall_ptrace:
  "ptrace (fold (\<lambda>l. pcall (f l)) ls s) = ptrace s @ map f ls"
  by (induction ls arbitrary: s) (simp_all add: pcall_def)

lemma fold_pcall_pool:
  "pool (fold (\<lambda>l. pcall (f l)) ls s) = pool s"
  by (induction ls arbitrary: s) (simp_all add: pcall_def)

lemma spawned_Notify: "spawned (map (\<lambda>l. Notify l ev) ls) = []"
  by (induction ls) simp_all

lemma rxHeartbeats_loop_length:
  "rxHeartbeats_loop k now ws = Some ws' \<Longrightarrow> length ws' = length ws"
  by (induction ws arbitrary: ws') (auto split: if_splits)


lemma unat_of_nat_uint: "unat (of_nat k :: uint) = uint_value k"
  by (simp add: uint_value_def)



text \<open>A tick of a pool with one slot.\<close>

lemma checkHeartbeats_single:
  assumes "workers (pool s) = [info]"
  shows "checkHeartbeats pe s =
     (let now = time_Now pe (ptrace s);
          stopped = ptrace s @ [TimeNow, WorkerStop (id (worker info))];
          next = nextWorkerId (pool s) + 1
      in if heartbeat_lost (workerSleepTime (pool s)) now info then
           if done_chan (worker info) < 1 \<or> done_received pe stopped (id (worker info)) then
             (Returned (),
              \<lparr>pool = (pool s)\<lparr>workers :=
                         [\<lparr>worker = newWorker (unat next) (workerSleepTime (pool s)),
                           lastHearbeat = time_Now pe (stopped @ [GoWorkerStart (unat next)])\<rparr>],
                       nextWorkerId := next\<rparr>,
               ptrace = stopped @ [GoWorkerStart (unat next), TimeNow]\<rparr>)
           else (Blocked, s\<lparr>ptrace := stopped\<rparr>)
         else (Returned (), s\<lparr>ptrace := ptrace s @ [TimeNow]\<rparr>))"
  using assms
  by (simp add: checkHeartbeats_def checkHeartbeats_body_def WorkerInfo_Stop_def send_done_def
      WorkerPool_newWorker_def pcall_def Let_def)

lemma single_slot: "length ws = 1 \<Longrightarrow> ws = [hd ws]"
  by (cases ws) simp_all

lemma checkHeartbeats_inv:
  assumes "pool_inv wst s"
  shows "pool_inv wst (snd (checkHeartbeats pe s))"
proof -
  from assms have one: "workers (pool s) = [hd (workers (pool s))]"
    by (simp add: pool_inv_def single_slot)
  let ?n = "length (spawned (ptrace s))"
  from assms have sp: "spawned (ptrace s) = map uint_value [0 ..< ?n]"
    and nx: "nextWorkerId (pool s) + 1 = of_nat ?n"
    by (simp_all add: pool_inv_def)
  have nx1: "unat (nextWorkerId (pool s) + 1) = uint_value ?n"
    by (simp add: nx uint_value_def)
  have grow: "spawned (ptrace s) @ [uint_value ?n] = map uint_value [0 ..< Suc ?n]"
    using sp by simp
  show ?thesis
    using assms nx grow
    by (simp add: checkHeartbeats_single [OF one] pool_inv_def spawned_append
        unat_of_nat_uint Let_def)
qed

lemma rxHeartbeats_inv: "pool_inv wst s \<Longrightarrow> pool_inv wst (rxHeartbeats pe k s)"
  by (auto simp: rxHeartbeats_def pool_inv_def pcall_def spawned_append
      dest: rxHeartbeats_loop_length split: option.splits)

lemma notify_inv: "pool_inv wst s \<Longrightarrow> pool_inv wst (notify ev s)"
  by (simp add: notify_def pool_inv_def fold_pcall_ptrace fold_pcall_pool spawned_append
      spawned_Notify)

lemma subscribe_inv: "pool_inv wst s \<Longrightarrow> pool_inv wst (subscribe l s)"
  by (simp add: subscribe_def pool_inv_def)

lemma worker_stops_itself_inv: "pool_inv wst s \<Longrightarrow> pool_inv wst (worker_stops_itself i s)"
  by (simp add: worker_stops_itself_def pool_inv_def split: option.splits)

lemma worker_receives_done_inv: "pool_inv wst s \<Longrightarrow> pool_inv wst (worker_receives_done i s)"
  by (simp add: worker_receives_done_def pool_inv_def)

lemma supervise_inv:
  assumes "supervise pe evs s = (status, s')" and "pool_inv wst s"
  shows "pool_inv wst s'"
  using assms
proof (induction pe evs s rule: supervise.induct)
  case (1 pe s)
  then show ?case by simp
next
  case (2 pe rest s)
  then show ?case by simp
next
  case (3 pe i rest s)
  then show ?case by (simp add: rxHeartbeats_inv)
next
  case (4 pe ev rest s)
  then show ?case by (simp add: notify_inv)
next
  case (5 pe rest s)
  obtain r s1 where c: "checkHeartbeats pe s = (r, s1)" by (cases "checkHeartbeats pe s")
  from checkHeartbeats_inv [OF "5.prems"(2), of pe] c have i1: "pool_inv wst s1" by simp
  show ?case
  proof (cases r)
    case (Returned u)
    with "5.prems"(1) c have "supervise pe rest s1 = (status, s')" by simp
    from "5.IH" [OF c [symmetric] _ this i1] Returned show ?thesis by simp
  next
    case Panicked
    with "5.prems"(1) c i1 show ?thesis by simp
  next
    case Blocked
    with "5.prems"(1) c i1 show ?thesis by simp
  qed
next
  case (6 pe l rest s)
  then show ?case by (simp add: subscribe_inv)
next
  case (7 pe i rest s)
  then show ?case by (simp add: worker_stops_itself_inv)
next
  case (8 pe i rest s)
  then show ?case by (simp add: worker_receives_done_inv)
qed

lemma started_pool_inv:
  assumes "NewWorkerPool m wst pst = Returned p"
  shows "pool_inv wst (WorkerPool_Start pe (new_pool_state p))"
proof -
  from NewWorkerPool_fields [OF assms]
  have f: "maxWorkers p = 1" "workers p = []" "nextWorkerId p = 0" "workerSleepTime p = wst"
    by simp_all
  show ?thesis
    using f by (simp add: WorkerPool_Start_new pool_inv_def uint_value_def)
qed

lemma reached_pool:
  assumes "NewWorkerPool m wst pst = Returned p"
    and "WorkerPool_Loop pe evs (WorkerPool_Start pe (new_pool_state p)) = (status, s)"
  shows "pool_inv wst s"
proof (cases "poolSleepTime (pool (WorkerPool_Start pe (new_pool_state p))) \<le>s 0")
  case True
  with assms(2) have "s = WorkerPool_Start pe (new_pool_state p)"
    by (simp add: WorkerPool_Loop_def)
  with started_pool_inv [OF assms(1)] show ?thesis by simp
next
  case False
  with assms(2) have "supervise pe evs (WorkerPool_Start pe (new_pool_state p)) = (status, s)"
    by (simp add: WorkerPool_Loop_def)
  from supervise_inv [OF this started_pool_inv [OF assms(1)]] show ?thesis .
qed

text \<open>
  C1 at \<open>maxWorkers = 2\<close>. The constructor stores 1 in \<open>maxWorkers\<close> whatever it is
  given, while it sizes the channels with its argument; \<open>Start\<close> spawns one worker, and
  the pool has one worker after any sequence of heartbeats, events and ticks.
\<close>

theorem pool_of_two_has_one_worker:
  "let p = \<lparr>maxWorkers = 1, workers = [], nextWorkerId = 0, workerSleepTime = wst,
             poolSleepTime = pst, heartbeatChan_cap = 6, eventChan_cap = 6,
             eventListeners = []\<rparr>
   in NewWorkerPool 2 wst pst = Returned p \<and>
      maxWorkers p = 1 \<and>
      heartbeatChan_cap p = 6 \<and>
      spawned (ptrace (WorkerPool_Start pe (new_pool_state p))) = [0] \<and>
      length (workers (pool (WorkerPool_Start pe (new_pool_state p)))) = 1 \<and>
      length (workers (pool (snd (WorkerPool_Loop pe evs
         (WorkerPool_Start pe (new_pool_state p)))))) = 1"
proof -
  let ?p = "\<lparr>maxWorkers = 1, workers = [], nextWorkerId = 0, workerSleepTime = wst,
             poolSleepTime = pst, heartbeatChan_cap = 6, eventChan_cap = 6,
             eventListeners = []\<rparr>"
  have new: "NewWorkerPool 2 wst pst = Returned ?p"
    by (simp add: NewWorkerPool_def make_chan_def)
  obtain status s where
    l: "WorkerPool_Loop pe evs (WorkerPool_Start pe (new_pool_state ?p)) = (status, s)"
    by (cases "WorkerPool_Loop pe evs (WorkerPool_Start pe (new_pool_state ?p))")
  from reached_pool [OF new l] have "length (workers (pool s)) = 1"
    by (simp add: pool_inv_def)
  with l new show ?thesis
    unfolding Let_def by (simp add: WorkerPool_Start_new)
qed








end
